theory Spec2Isabelle
  imports Complex_Main "HOL-Library.AList"
begin

section \<open>Entity model of the tactical map server (server.py)\<close>

text \<open>
  Conventions of the embedding.
  \<^item> A Python \<open>dict\<close> keeps insertion order, so it is an association list read with
    \<open>map_of\<close>; \<open>d[k] = v\<close> is \<open>AList.update\<close> (in place for a known key, appended
    for a new one) and \<open>del d[k]\<close> is \<open>AList.delete\<close>.
  \<^item> A Python \<open>set\<close> is a HOL set.
  \<^item> A \<open>float\<close> is a double; a finite double is a real number and is carried as
    such. What the platform computes from doubles (the rounding of an arithmetic result,
    the functions of the \<open>math\<close> module) is a parameter of type \<open>float_ops\<close>; the numbers
    of a request are finite.
  \<^item> \<open>time.time()\<close> is the parameter \<open>now\<close> of a handler (one clock reading per
    handler call) and every \<open>uuid.uuid4()\<close> is a parameter as well.
  \<^item> A websocket object is a handle of type \<open>ws\<close>; what is sent through it is recorded
    as an effect, and a handler that sends nothing records nothing.
  \<^item> A handler runs without interleaving: the only suspension points of the handlers
    are their sends.
\<close>

datatype ConnectionStatus = CONNECTED | DISCONNECTED | INACTIVE

datatype Visibility = V_TEAM | V_ALL

datatype AlertType = CONTACT | DANGER | RALLY | HELP

datatype MarkerType = PIN | AREA | LINE

datatype py_error = KeyError | ValueError | TypeError

type_synonym ws = nat

record Position =
  latitude :: real
  longitude :: real
  heading :: real
  accuracy :: real
  elevation :: real
  updated_at :: real

record Player =
  p_player_id :: string
  p_callsign :: string
  p_team_id :: "string option"
  p_connection_status :: ConnectionStatus
  p_last_active :: real
  p_position :: "Position option"
  p_device_info :: "(string \<times> string) list"
  p_websocket :: "ws option"

record Team =
  t_team_id :: string
  t_name :: string
  t_color :: string
  t_players :: "string set"
  t_markers :: "string set"

record Marker =
  m_marker_id :: string
  m_type :: MarkerType
  m_created_by :: string
  m_team_id :: "string option"
  m_visibility :: Visibility
  m_position :: Position
  m_properties :: "(string \<times> string) list"
  m_created_at :: real
  m_expires_at :: "real option"

record Message =
  msg_message_id :: string
  msg_sender_id :: string
  msg_team_id :: "string option"
  msg_visibility :: Visibility
  msg_type :: string
  msg_content :: string
  msg_sent_at :: real
  msg_location :: "Position option"

record Session =
  s_session_id :: string
  s_created_at :: real
  s_last_active :: real
  s_host_id :: "string option"
  s_teams :: "(string \<times> Team) list"
  s_settings :: "(string \<times> string) list"
  s_players :: "(string \<times> Player) list"
  s_markers :: "(string \<times> Marker) list"
  s_messages :: "Message list"
  s_sequence_number :: int

text \<open>The dataclass defaults of \<open>Session(session_id=...)\<close> and \<open>Team(team_id, name, color)\<close>.\<close>

definition new_Session :: "string \<Rightarrow> real \<Rightarrow> Session" where
  "new_Session sid now =
     \<lparr>s_session_id = sid, s_created_at = now, s_last_active = now, s_host_id = None,
      s_teams = [], s_settings = [], s_players = [], s_markers = [], s_messages = [],
      s_sequence_number = 0\<rparr>"

definition new_Team :: "string \<Rightarrow> string \<Rightarrow> string \<Rightarrow> Team" where
  "new_Team tid name color =
     \<lparr>t_team_id = tid, t_name = name, t_color = color, t_players = {}, t_markers = {}\<rparr>"

subsection \<open>Position.distance_to\<close>

definition radians :: "real \<Rightarrow> real" where
  "radians x = x * (pi / 180)"

definition atan2 :: "real \<Rightarrow> real \<Rightarrow> real" where
  "atan2 y x =
     (if 0 < x then arctan (y / x)
      else if x < 0 \<and> 0 \<le> y then arctan (y / x) + pi
      else if x < 0 then arctan (y / x) - pi
      else if 0 < y then pi / 2
      else if y < 0 then - (pi / 2)
      else 0)"

text \<open>
  The floating-point arithmetic of the platform: \<open>fl_round\<close> rounds the exact result of
  \<open>+\<close>, \<open>-\<close>, \<open>*\<close> or \<open>/\<close> to a double, the other fields are the functions of the
  \<open>math\<close> module on doubles and \<open>**\<close> on floats.
\<close>

record float_ops =
  fl_round :: "real \<Rightarrow> real"
  fl_radians :: "real \<Rightarrow> real"
  fl_sin :: "real \<Rightarrow> real"
  fl_cos :: "real \<Rightarrow> real"
  fl_sqrt :: "real \<Rightarrow> real"
  fl_atan2 :: "real \<Rightarrow> real \<Rightarrow> real"
  fl_pow :: "real \<Rightarrow> real \<Rightarrow> real"

text \<open>\<open>math.sqrt\<close> raises \<open>ValueError\<close> (math domain error) for a negative argument.\<close>

definition math_sqrt :: "float_ops \<Rightarrow> real \<Rightarrow> py_error + real" where
  "math_sqrt fl x = (if x < 0 then Inl ValueError else Inr (fl_sqrt fl x))"

definition distance_to :: "float_ops \<Rightarrow> Position \<Rightarrow> Position \<Rightarrow> py_error + real" where
  "distance_to fl self other =
     (let R = 6371000;
          lat1 = fl_radians fl (latitude self); lon1 = fl_radians fl (longitude self);
          lat2 = fl_radians fl (latitude other); lon2 = fl_radians fl (longitude other);
          dlat = fl_round fl (lat2 - lat1);
          dlon = fl_round fl (lon2 - lon1);
          a = fl_round fl
                (fl_pow fl (fl_sin fl (fl_round fl (dlat / 2))) 2 +
                 fl_round fl (fl_round fl (fl_cos fl lat1 * fl_cos fl lat2) *
                              fl_pow fl (fl_sin fl (fl_round fl (dlon / 2))) 2))
      in case math_sqrt fl a of
           Inl e \<Rightarrow> Inl e
         | Inr sqrt_a \<Rightarrow>
             (case math_sqrt fl (fl_round fl (1 - a)) of
                Inl e \<Rightarrow> Inl e
              | Inr sqrt_1a \<Rightarrow>
                  (let c = fl_round fl (2 * fl_atan2 fl sqrt_a sqrt_1a)
                   in Inr (fl_round fl (R * c)))))"

text \<open>The arithmetic without rounding: every operation gives its exact real result.\<close>

definition exact_arithmetic :: float_ops where
  "exact_arithmetic =
     \<lparr>fl_round = (\<lambda>x. x), fl_radians = radians, fl_sin = sin, fl_cos = cos, fl_sqrt = sqrt,
      fl_atan2 = atan2, fl_pow = (\<lambda>x y. x ^ nat \<lfloor>y\<rfloor>)\<rparr>"

definition POSITION_UPDATE_THRESHOLD :: real where
  "POSITION_UPDATE_THRESHOLD = 2"

definition INACTIVE_TIMEOUT :: real where
  "INACTIVE_TIMEOUT = 300"

subsection \<open>StateDelta\<close>

record player_data =
  pd_player_id :: string
  pd_callsign :: string
  pd_team_id :: "string option"
  pd_connection_status :: ConnectionStatus

datatype change_data =
    PositionData Position
  | MessageData Message
  | MarkerData Marker
  | PropertiesData "(string \<times> string) list"
  | TeamIdData string
  | PlayerData player_data
  | EmptyData

record change =
  c_type :: string
  c_entity_type :: string
  c_entity_id :: string
  c_data :: change_data
  c_timestamp :: real

type_synonym StateDelta = "change list"

definition add_change ::
  "StateDelta \<Rightarrow> string \<Rightarrow> string \<Rightarrow> string \<Rightarrow> change_data \<Rightarrow> real \<Rightarrow> StateDelta" where
  "add_change changes change_type entity_type entity_id data now =
     changes @ [\<lparr>c_type = change_type, c_entity_type = entity_type,
                 c_entity_id = entity_id, c_data = data, c_timestamp = now\<rparr>]"

record delta_dict =
  d_delta_id :: string
  d_session_id :: string
  d_timestamp :: real
  d_sequence_number :: int
  d_changes :: "change list"

definition to_dict :: "StateDelta \<Rightarrow> string \<Rightarrow> int \<Rightarrow> string \<Rightarrow> real \<Rightarrow> delta_dict" where
  "to_dict changes session_id sequence_number did now =
     \<lparr>d_delta_id = did, d_session_id = session_id, d_timestamp = now,
      d_sequence_number = sequence_number, d_changes = changes\<rparr>"

subsection \<open>The filtered state of an auth response\<close>

record team_view =
  tv_team_id :: string
  tv_name :: string
  tv_color :: string
  tv_players :: "string set"

record player_view =
  pv_player_id :: string
  pv_callsign :: string
  pv_team_id :: "string option"
  pv_connection_status :: ConnectionStatus
  pv_position :: "Position option"

record state_view =
  sv_session_id :: string
  sv_sequence_number :: int
  sv_teams :: "(string \<times> team_view) list"
  sv_players :: "(string \<times> player_view) list"
  sv_markers :: "(string \<times> Marker) list"
  sv_messages :: "Message list"

subsection \<open>What a handler sends\<close>

text \<open>
  \<open>StateDeltaMsg d rcpts\<close>: the state_delta message built from \<open>d\<close> is sent to the
  websocket of each player of \<open>rcpts\<close> (pairs of player id and websocket handle), and
  \<open>rcpts\<close> is not empty.
\<close>

datatype effect =
    StateDeltaMsg delta_dict "(string \<times> ws) set"
  | AuthResponse ws string "string option" state_view
  | ErrorMsg ws string

text \<open>
  The outcome of a handler: it returns (\<open>Done\<close>) with the state it leaves and what it
  sent, or an exception leaves it (\<open>Raised\<close>) with the state mutated so far.
\<close>

datatype 's outcome = Done 's "effect list" | Raised py_error 's

section \<open>Broadcast router\<close>

text \<open>Python truthiness of an optional string: neither \<open>None\<close> nor empty.\<close>

fun truthy :: "string option \<Rightarrow> bool" where
  "truthy None = False"
| "truthy (Some x) = (x \<noteq> [])"

text \<open>
  The players a broadcast addresses: the members of the team that are keys of the
  player map, or every value of the player map.
\<close>

definition target_players :: "Session \<Rightarrow> string option \<Rightarrow> Player set option" where
  "target_players session team_id =
     (if truthy team_id then
        (case map_of (s_teams session) (the team_id) of
           None \<Rightarrow> None
         | Some team \<Rightarrow>
             Some ((\<lambda>pid. the (map_of (s_players session) pid)) `
                   Set.filter (\<lambda>pid. map_of (s_players session) pid \<noteq> None) (t_players team)))
      else Some (set (map snd (s_players session))))"

definition tasks :: "Player set \<Rightarrow> (string \<times> ws) set" where
  "tasks targets =
     (\<lambda>player. (p_player_id player, the (p_websocket player))) `
       Set.filter (\<lambda>player. p_websocket player \<noteq> None \<and>
                             p_connection_status player = CONNECTED) targets"

text \<open>
  The sequence number is raised and the delta built before the targets are looked up;
  for a team that does not exist the function returns there, and with no task nothing
  is sent.
\<close>

definition broadcast_delta ::
  "Session \<Rightarrow> StateDelta \<Rightarrow> string option \<Rightarrow> string \<Rightarrow> real \<Rightarrow> Session \<times> effect list" where
  "broadcast_delta session delta team_id did now =
     (let session' = session\<lparr>s_sequence_number := s_sequence_number session + 1\<rparr>;
          delta_dict = to_dict delta (s_session_id session') (s_sequence_number session') did now
      in case target_players session' team_id of
           None \<Rightarrow> (session', [])
         | Some targets \<Rightarrow>
             (session', if tasks targets \<noteq> {} then [StateDeltaMsg delta_dict (tasks targets)]
                        else []))"

definition broadcast_player_update ::
  "Session \<Rightarrow> Player \<Rightarrow> string \<Rightarrow> string \<Rightarrow> real \<Rightarrow> Session \<times> effect list" where
  "broadcast_player_update session player change_type did now =
     (let player_data = \<lparr>pd_player_id = p_player_id player, pd_callsign = p_callsign player,
                          pd_team_id = p_team_id player,
                          pd_connection_status = p_connection_status player\<rparr>;
          delta = add_change [] change_type ''player'' (p_player_id player)
                    (PlayerData player_data) now
      in broadcast_delta session delta None did now)"

section \<open>Visibility and snapshot engine\<close>

text \<open>The Python slice \<open>xs[-n:]\<close> for a positive \<open>n\<close>: the last \<open>n\<close> elements.\<close>

definition last_n :: "nat \<Rightarrow> 'a list \<Rightarrow> 'a list" where
  "last_n n xs = drop (length xs - n) xs"

definition team_public :: "Team \<Rightarrow> team_view" where
  "team_public team =
     \<lparr>tv_team_id = t_team_id team, tv_name = t_name team, tv_color = t_color team,
      tv_players = t_players team\<rparr>"

definition player_public :: "string option \<Rightarrow> Player \<Rightarrow> player_view" where
  "player_public team_id player =
     \<lparr>pv_player_id = p_player_id player, pv_callsign = p_callsign player,
      pv_team_id = p_team_id player, pv_connection_status = p_connection_status player,
      pv_position = (if p_team_id player = team_id \<and> p_position player \<noteq> None
                     then p_position player else None)\<rparr>"

definition marker_visible :: "string option \<Rightarrow> Marker \<Rightarrow> bool" where
  "marker_visible team_id marker = (m_visibility marker = V_ALL \<or> m_team_id marker = team_id)"

definition message_visible :: "string option \<Rightarrow> Message \<Rightarrow> bool" where
  "message_visible team_id message =
     (msg_visibility message = V_ALL \<or> msg_team_id message = team_id)"

definition get_filtered_state :: "Session \<Rightarrow> string option \<Rightarrow> state_view" where
  "get_filtered_state session team_id =
     \<lparr>sv_session_id = s_session_id session,
      sv_sequence_number = s_sequence_number session,
      sv_teams = map (\<lambda>(tid, team). (tid, team_public team)) (s_teams session),
      sv_players = map (\<lambda>(pid, player). (pid, player_public team_id player)) (s_players session),
      sv_markers = filter (\<lambda>(mid, marker). marker_visible team_id marker) (s_markers session),
      sv_messages = filter (message_visible team_id) (last_n 50 (s_messages session))\<rparr>"

section \<open>Session protocol handler\<close>

subsection \<open>Inbound messages\<close>

text \<open>
  A field read with \<open>data["k"]\<close> is optional in the record, and its absence raises
  \<open>KeyError\<close>; a field read with \<open>data.get("k", d)\<close> is optional and defaults.
  An enum field arrives as a string and is parsed by the enum's constructor.
\<close>

type_synonym pos_dict = "(string \<times> real) list"

record position_update =
  pu_latitude :: "real option"
  pu_longitude :: "real option"
  pu_heading :: "real option"
  pu_accuracy :: "real option"
  pu_elevation :: "real option"

record chat_data =
  ch_visibility :: "string option"
  ch_content :: "string option"
  ch_location :: "pos_dict option"

record alert_data =
  al_alert_type :: "string option"
  al_location :: "pos_dict option"
  al_visibility :: "string option"

record marker_data =
  md_type :: "string option"
  md_visibility :: "string option"
  md_position :: "pos_dict option"
  md_properties :: "(string \<times> string) list option"

record marker_request =
  mr_action :: "string option"
  mr_marker_id :: "string option"
  mr_marker_data :: "marker_data option"

record team_update_request =
  tu_action :: "string option"
  tu_player_id :: "string option"
  tu_team_id :: "string option"

record auth_request =
  au_callsign :: string
  au_session_id :: string
  au_is_host :: bool
  au_device_info :: "(string \<times> string) list"

datatype client_message =
    POSITION_UPDATE position_update
  | CHAT chat_data
  | ALERT alert_data
  | MARKER marker_request
  | TEAM_UPDATE team_update_request
  | OTHER string

definition Visibility_of :: "string \<Rightarrow> Visibility option" where
  "Visibility_of v =
     (if v = ''team'' then Some V_TEAM else if v = ''all'' then Some V_ALL else None)"

definition AlertType_of :: "string \<Rightarrow> AlertType option" where
  "AlertType_of v =
     (if v = ''contact'' then Some CONTACT else if v = ''danger'' then Some DANGER
      else if v = ''rally'' then Some RALLY else if v = ''help'' then Some HELP else None)"

fun AlertType_value :: "AlertType \<Rightarrow> string" where
  "AlertType_value CONTACT = ''contact''"
| "AlertType_value DANGER = ''danger''"
| "AlertType_value RALLY = ''rally''"
| "AlertType_value HELP = ''help''"

definition MarkerType_of :: "string \<Rightarrow> MarkerType option" where
  "MarkerType_of v =
     (if v = ''pin'' then Some PIN else if v = ''area'' then Some AREA
      else if v = ''line'' then Some LINE else None)"

text \<open>\<open>str.upper\<close> and \<open>str.strip\<close> on ASCII text.\<close>

definition upper_char :: "char \<Rightarrow> char" where
  "upper_char c =
     (case map_of (zip ''abcdefghijklmnopqrstuvwxyz'' ''ABCDEFGHIJKLMNOPQRSTUVWXYZ'') c of
        None \<Rightarrow> c
      | Some u \<Rightarrow> u)"

definition upper :: "string \<Rightarrow> string" where
  "upper s = map upper_char s"

definition isspace :: "char \<Rightarrow> bool" where
  "isspace c = ((of_char c :: nat) \<in> {9, 10, 11, 12, 13, 28, 29, 30, 31, 32})"

definition strip :: "string \<Rightarrow> string" where
  "strip s = rev (dropWhile isspace (rev (dropWhile isspace s)))"

text \<open>
  \<open>Position(**d)\<close>: \<open>TypeError\<close> for an unknown keyword or a missing latitude or
  longitude; the other fields default.
\<close>

definition Position_fields :: "string list" where
  "Position_fields =
     [''latitude'', ''longitude'', ''heading'', ''accuracy'', ''elevation'', ''updated_at'']"

definition get_default :: "('k \<times> 'v) list \<Rightarrow> 'k \<Rightarrow> 'v \<Rightarrow> 'v" where
  "get_default d k v = (case map_of d k of None \<Rightarrow> v | Some x \<Rightarrow> x)"

definition Position_of_dict :: "pos_dict \<Rightarrow> real \<Rightarrow> py_error + Position" where
  "Position_of_dict d now =
     (if list_ex (\<lambda>k. k \<notin> set Position_fields) (map fst d) then Inl TypeError
      else case map_of d ''latitude'' of
        None \<Rightarrow> Inl TypeError
      | Some la \<Rightarrow>
          (case map_of d ''longitude'' of
             None \<Rightarrow> Inl TypeError
           | Some lo \<Rightarrow>
               Inr \<lparr>latitude = la, longitude = lo, heading = get_default d ''heading'' 0,
                    accuracy = get_default d ''accuracy'' 0,
                    elevation = get_default d ''elevation'' 0,
                    updated_at = get_default d ''updated_at'' now\<rparr>))"

text \<open>
  A player object is shared with the player map of its session, where it stands under
  its own id: a mutation of the object is a store under that key.
\<close>

definition store_player :: "Session \<Rightarrow> Player \<Rightarrow> Session" where
  "store_player session player =
     session\<lparr>s_players := AList.update (p_player_id player) player (s_players session)\<rparr>"

definition broadcast :: "Session \<times> effect list \<Rightarrow> Session outcome" where
  "broadcast r = (case r of (session, es) \<Rightarrow> Done session es)"

subsection \<open>handle_position_update\<close>

text \<open>
  The guard \<open>player.position is None or distance_to(...) > POSITION_UPDATE_THRESHOLD\<close>:
  the distance is computed only for a stored position, and an exception of the
  computation leaves the guard.
\<close>

definition position_changed :: "float_ops \<Rightarrow> Player \<Rightarrow> Position \<Rightarrow> py_error + bool" where
  "position_changed fl player new_position =
     (case p_position player of
        None \<Rightarrow> Inr True
      | Some position \<Rightarrow>
          (case distance_to fl position new_position of
             Inl e \<Rightarrow> Inl e
           | Inr d \<Rightarrow> Inr (d > POSITION_UPDATE_THRESHOLD)))"

text \<open>The \<open>Position(...)\<close> built from a position update: absent fields default to 0.\<close>

definition new_position_of :: "real \<Rightarrow> real \<Rightarrow> position_update \<Rightarrow> real \<Rightarrow> Position" where
  "new_position_of la lo data now =
     \<lparr>latitude = la, longitude = lo,
      heading = (case pu_heading data of None \<Rightarrow> 0 | Some x \<Rightarrow> x),
      accuracy = (case pu_accuracy data of None \<Rightarrow> 0 | Some x \<Rightarrow> x),
      elevation = (case pu_elevation data of None \<Rightarrow> 0 | Some x \<Rightarrow> x),
      updated_at = now\<rparr>"

definition handle_position_update ::
  "float_ops \<Rightarrow> Session \<Rightarrow> Player \<Rightarrow> position_update \<Rightarrow> string \<Rightarrow> real \<Rightarrow> Session outcome" where
  "handle_position_update fl session player data did now =
     (case pu_latitude data of
        None \<Rightarrow> Raised KeyError session
      | Some la \<Rightarrow>
     (case pu_longitude data of
        None \<Rightarrow> Raised KeyError session
      | Some lo \<Rightarrow>
          (let new_position = new_position_of la lo data now
           in case position_changed fl player new_position of
                Inl e \<Rightarrow> Raised e session
              | Inr changed \<Rightarrow>
                  if changed then
                    (let player' = player\<lparr>p_position := Some new_position, p_last_active := now\<rparr>;
                         delta = add_change [] ''update'' ''player'' (p_player_id player)
                                   (PositionData new_position) now
                     in broadcast (broadcast_delta (store_player session player') delta
                                     (p_team_id player) did now))
                  else Done session [])))"

subsection \<open>handle_chat and handle_alert\<close>

definition handle_chat ::
  "Session \<Rightarrow> Player \<Rightarrow> chat_data \<Rightarrow> string \<Rightarrow> string \<Rightarrow> real \<Rightarrow> Session outcome" where
  "handle_chat session player data mid did now =
     (case Visibility_of (case ch_visibility data of None \<Rightarrow> ''team'' | Some v \<Rightarrow> v) of
        None \<Rightarrow> Raised ValueError session
      | Some vis \<Rightarrow>
     (case ch_content data of
        None \<Rightarrow> Raised KeyError session
      | Some text \<Rightarrow>
     (case (case ch_location data of
              None \<Rightarrow> Inr None
            | Some d \<Rightarrow> map_sum id Some (Position_of_dict d now)) of
        Inl e \<Rightarrow> Raised e session
      | Inr loc \<Rightarrow>
          (let message =
                 \<lparr>msg_message_id = mid, msg_sender_id = p_player_id player,
                  msg_team_id = p_team_id player, msg_visibility = vis,
                  msg_type = ''chat'', msg_content = take 500 text, msg_sent_at = now,
                  msg_location = loc\<rparr>;
               appended = s_messages session @ [message];
               session' = session\<lparr>s_messages :=
                            (if length appended > 100 then last_n 100 appended else appended)\<rparr>;
               delta = add_change [] ''add'' ''message'' mid (MessageData message) now
           in if vis = V_TEAM
              then broadcast (broadcast_delta session' delta (p_team_id player) did now)
              else broadcast (broadcast_delta session' delta None did now)))))"

definition handle_alert ::
  "Session \<Rightarrow> Player \<Rightarrow> alert_data \<Rightarrow> string \<Rightarrow> string \<Rightarrow> real \<Rightarrow> Session outcome" where
  "handle_alert session player data mid did now =
     (case al_alert_type data of
        None \<Rightarrow> Raised KeyError session
      | Some v \<Rightarrow>
     (case AlertType_of v of
        None \<Rightarrow> Raised ValueError session
      | Some alert_type \<Rightarrow>
     (let location_data = (case al_location data of None \<Rightarrow> [] | Some d \<Rightarrow> d)
      in case (if location_data \<noteq> [] then map_sum id Some (Position_of_dict location_data now)
               else Inr (p_position player)) of
           Inl e \<Rightarrow> Raised e session
         | Inr loc \<Rightarrow>
             (let message =
                    \<lparr>msg_message_id = mid, msg_sender_id = p_player_id player,
                     msg_team_id = p_team_id player, msg_visibility = V_TEAM,
                     msg_type = ''alert'',
                     msg_content = upper (AlertType_value alert_type) @ '' - '' @ p_callsign player,
                     msg_sent_at = now, msg_location = loc\<rparr>;
                  session' = session\<lparr>s_messages := s_messages session @ [message]\<rparr>;
                  delta = add_change [] ''add'' ''message'' mid (MessageData message) now
              in broadcast (broadcast_delta session' delta (p_team_id player) did now)))))"

subsection \<open>handle_marker\<close>

text \<open>\<open>d.update(e)\<close>: the items of \<open>e\<close> are stored into \<open>d\<close> from left to right.\<close>

definition dict_update :: "('k \<times> 'v) list \<Rightarrow> ('k \<times> 'v) list \<Rightarrow> ('k \<times> 'v) list" where
  "dict_update d e = fold (\<lambda>(k, v). AList.update k v) e d"

definition scoped_broadcast ::
  "Session \<Rightarrow> Marker \<Rightarrow> Player \<Rightarrow> StateDelta \<Rightarrow> string \<Rightarrow> real \<Rightarrow> Session outcome" where
  "scoped_broadcast session marker player delta did now =
     (if m_visibility marker = V_TEAM
      then broadcast (broadcast_delta session delta (p_team_id player) did now)
      else broadcast (broadcast_delta session delta None did now))"

definition marker_create ::
  "Session \<Rightarrow> Player \<Rightarrow> marker_request \<Rightarrow> string \<Rightarrow> string \<Rightarrow> real \<Rightarrow> Session outcome" where
  "marker_create session player data mid did now =
     (case mr_marker_data data of
        None \<Rightarrow> Raised KeyError session
      | Some md \<Rightarrow>
     (case md_type md of
        None \<Rightarrow> Raised KeyError session
      | Some ty \<Rightarrow>
     (case MarkerType_of ty of
        None \<Rightarrow> Raised ValueError session
      | Some mtype \<Rightarrow>
     (case Visibility_of (case md_visibility md of None \<Rightarrow> ''team'' | Some v \<Rightarrow> v) of
        None \<Rightarrow> Raised ValueError session
      | Some vis \<Rightarrow>
     (case md_position md of
        None \<Rightarrow> Raised KeyError session
      | Some pd \<Rightarrow>
     (case Position_of_dict pd now of
        Inl e \<Rightarrow> Raised e session
      | Inr pos \<Rightarrow>
          (let marker =
                 \<lparr>m_marker_id = mid, m_type = mtype, m_created_by = p_player_id player,
                  m_team_id = p_team_id player, m_visibility = vis, m_position = pos,
                  m_properties = (case md_properties md of None \<Rightarrow> [] | Some ps \<Rightarrow> ps),
                  m_created_at = now, m_expires_at = None\<rparr>;
               session1 = session\<lparr>s_markers := AList.update mid marker (s_markers session)\<rparr>
           in case (case p_team_id player of
                      None \<Rightarrow> None
                    | Some tid \<Rightarrow> map_option (Pair tid) (map_of (s_teams session1) tid)) of
                None \<Rightarrow> Raised KeyError session1
              | Some (tid, team) \<Rightarrow>
                  (let session2 = session1\<lparr>s_teams :=
                         AList.update tid (team\<lparr>t_markers := insert mid (t_markers team)\<rparr>)
                           (s_teams session1)\<rparr>;
                       delta = add_change [] ''add'' ''marker'' mid (MarkerData marker) now
                   in scoped_broadcast session2 marker player delta did now))))))))"

definition marker_update ::
  "Session \<Rightarrow> Player \<Rightarrow> marker_request \<Rightarrow> string \<Rightarrow> real \<Rightarrow> Session outcome" where
  "marker_update session player data did now =
     (case mr_marker_id data of
        None \<Rightarrow> Raised KeyError session
      | Some marker_id \<Rightarrow>
     (case map_of (s_markers session) marker_id of
        None \<Rightarrow> Done session []
      | Some marker \<Rightarrow>
          if m_created_by marker = p_player_id player then
            (case mr_marker_data data of
               None \<Rightarrow> Raised KeyError session
             | Some md \<Rightarrow>
                 (let marker' = (case md_properties md of
                                   None \<Rightarrow> marker
                                 | Some ps \<Rightarrow>
                                     marker\<lparr>m_properties := dict_update (m_properties marker) ps\<rparr>);
                      session' = session\<lparr>s_markers :=
                                   AList.update marker_id marker' (s_markers session)\<rparr>;
                      delta = add_change [] ''update'' ''marker'' marker_id
                                (PropertiesData (m_properties marker')) now
                  in scoped_broadcast session' marker' player delta did now))
          else Done session []))"

definition marker_delete ::
  "Session \<Rightarrow> Player \<Rightarrow> marker_request \<Rightarrow> string \<Rightarrow> real \<Rightarrow> Session outcome" where
  "marker_delete session player data did now =
     (case mr_marker_id data of
        None \<Rightarrow> Raised KeyError session
      | Some marker_id \<Rightarrow>
     (case map_of (s_markers session) marker_id of
        None \<Rightarrow> Done session []
      | Some marker \<Rightarrow>
          if m_created_by marker = p_player_id player then
            (let session1 = session\<lparr>s_markers := AList.delete marker_id (s_markers session)\<rparr>
             in case (case m_team_id marker of
                        None \<Rightarrow> None
                      | Some tid \<Rightarrow> map_option (Pair tid) (map_of (s_teams session1) tid)) of
                  None \<Rightarrow> Raised KeyError session1
                | Some (tid, team) \<Rightarrow>
                    (let session2 = session1\<lparr>s_teams :=
                           AList.update tid (team\<lparr>t_markers := t_markers team - {marker_id}\<rparr>)
                             (s_teams session1)\<rparr>;
                         delta = add_change [] ''remove'' ''marker'' marker_id EmptyData now
                     in scoped_broadcast session2 marker player delta did now))
          else Done session []))"

definition handle_marker ::
  "Session \<Rightarrow> Player \<Rightarrow> marker_request \<Rightarrow> string \<Rightarrow> string \<Rightarrow> real \<Rightarrow> Session outcome" where
  "handle_marker session player data mid did now =
     (case mr_action data of
        None \<Rightarrow> Raised KeyError session
      | Some action \<Rightarrow>
          if action = ''create'' then marker_create session player data mid did now
          else if action = ''update'' then marker_update session player data did now
          else if action = ''delete'' then marker_delete session player data did now
          else Done session [])"

subsection \<open>handle_team_update\<close>

definition handle_team_update ::
  "Session \<Rightarrow> team_update_request \<Rightarrow> string \<Rightarrow> real \<Rightarrow> Session outcome" where
  "handle_team_update session data did now =
     (if tu_action data = Some ''assign_player'' then
        (case tu_player_id data of
           None \<Rightarrow> Raised KeyError session
         | Some player_id \<Rightarrow>
        (case tu_team_id data of
           None \<Rightarrow> Raised KeyError session
         | Some new_team_id \<Rightarrow>
        (case map_of (s_players session) player_id of
           None \<Rightarrow> Done session []
         | Some player \<Rightarrow>
             if map_of (s_teams session) new_team_id \<noteq> None then
               (case (if truthy (p_team_id player) then
                        (case map_of (s_teams session) (the (p_team_id player)) of
                           None \<Rightarrow> Inl KeyError
                         | Some old_team \<Rightarrow>
                             Inr (AList.update (the (p_team_id player))
                                    (old_team\<lparr>t_players := t_players old_team - {player_id}\<rparr>)
                                    (s_teams session)))
                      else Inr (s_teams session)) of
                  Inl e \<Rightarrow> Raised e session
                | Inr teams1 \<Rightarrow>
                    (let player' = player\<lparr>p_team_id := Some new_team_id\<rparr>;
                         new_team = the (map_of teams1 new_team_id);
                         teams2 = AList.update new_team_id
                                    (new_team\<lparr>t_players := insert player_id (t_players new_team)\<rparr>)
                                    teams1;
                         session' = session\<lparr>s_teams := teams2,
                                      s_players := AList.update player_id player' (s_players session)\<rparr>;
                         delta = add_change [] ''update'' ''player'' player_id
                                   (TeamIdData new_team_id) now
                     in broadcast (broadcast_delta session' delta None did now)))
             else Done session [])))
      else Done session [])"

section \<open>The server: session registry, authentication, disconnect, maintenance\<close>

record TacticalServer =
  sessions :: "(string \<times> Session) list"
  player_connections :: "(string \<times> ws) list"

definition put_session :: "TacticalServer \<Rightarrow> string \<Rightarrow> Session outcome \<Rightarrow> TacticalServer outcome" where
  "put_session server sid r =
     (case r of
        Done session es \<Rightarrow> Done (server\<lparr>sessions := AList.update sid session (sessions server)\<rparr>) es
      | Raised e session \<Rightarrow>
          Raised e (server\<lparr>sessions := AList.update sid session (sessions server)\<rparr>))"

definition handle_message ::
  "float_ops \<Rightarrow> TacticalServer \<Rightarrow> string \<Rightarrow> string \<Rightarrow> client_message \<Rightarrow> string \<Rightarrow> string
     \<Rightarrow> real \<Rightarrow> TacticalServer outcome" where
  "handle_message fl server player_id session_id data uid did now =
     (case map_of (sessions server) session_id of
        None \<Rightarrow> Done server []
      | Some session \<Rightarrow>
     (case map_of (s_players session) player_id of
        None \<Rightarrow> Done server []
      | Some player \<Rightarrow>
          (case data of
             POSITION_UPDATE d \<Rightarrow>
               put_session server session_id
                 (handle_position_update fl session player d did now)
           | CHAT d \<Rightarrow> put_session server session_id (handle_chat session player d uid did now)
           | ALERT d \<Rightarrow> put_session server session_id (handle_alert session player d uid did now)
           | MARKER d \<Rightarrow> put_session server session_id (handle_marker session player d uid did now)
           | TEAM_UPDATE d \<Rightarrow>
               if Some player_id = s_host_id session
               then put_session server session_id (handle_team_update session d did now)
               else Done server []
           | OTHER t \<Rightarrow> Done server [])))"

subsection \<open>handle_auth\<close>

text \<open>
  \<open>min(team_counts, key=team_counts.get)\<close>: the first key, in the order of the
  dictionary, whose count is the least.
\<close>

fun min_by :: "('a \<Rightarrow> nat) \<Rightarrow> 'a \<Rightarrow> 'a list \<Rightarrow> 'a" where
  "min_by f best [] = best"
| "min_by f best (x # xs) = (if f x < f best then min_by f x xs else min_by f best xs)"

definition team_count :: "Session \<Rightarrow> string \<Rightarrow> nat" where
  "team_count session tid = card (t_players (the (map_of (s_teams session) tid)))"

definition assign_team :: "Session \<Rightarrow> Player \<Rightarrow> string \<Rightarrow> Session \<times> Player" where
  "assign_team session player player_id =
     (case map fst (s_teams session) of
        [] \<Rightarrow> (session, player)
      | tid # tids \<Rightarrow>
          (let chosen = min_by (team_count session) tid tids;
               team = the (map_of (s_teams session) chosen)
           in (session\<lparr>s_teams := AList.update chosen
                         (team\<lparr>t_players := insert player_id (t_players team)\<rparr>)
                         (s_teams session)\<rparr>,
               player\<lparr>p_team_id := Some chosen\<rparr>)))"

definition create_session :: "string \<Rightarrow> string \<Rightarrow> string \<Rightarrow> real \<Rightarrow> Session" where
  "create_session session_id alpha_id bravo_id now =
     (let session = new_Session session_id now;
          alpha_team = new_Team alpha_id ''Alpha'' ''#00FF00'';
          bravo_team = new_Team bravo_id ''Bravo'' ''#FF0000''
      in session\<lparr>s_teams := AList.update bravo_id bravo_team
                                (AList.update alpha_id alpha_team (s_teams session))\<rparr>)"

text \<open>
  The part of \<open>handle_auth\<close> after the session is known (it stands in the registry
  under \<open>session_id\<close>): create the player, balance the teams, set the host, register
  the player and the connection, answer, announce.
\<close>

definition join_session ::
  "TacticalServer \<Rightarrow> string \<Rightarrow> Session \<Rightarrow> ws \<Rightarrow> auth_request \<Rightarrow> string \<Rightarrow> string \<Rightarrow> string
     \<Rightarrow> real \<Rightarrow> TacticalServer \<times> effect list" where
  "join_session server session_id session websocket data callsign player_id did now =
     (let player = \<lparr>p_player_id = player_id, p_callsign = callsign, p_team_id = None,
                    p_connection_status = CONNECTED, p_last_active = now, p_position = None,
                    p_device_info = au_device_info data, p_websocket = Some websocket\<rparr>;
          (session1, player1) = assign_team session player player_id;
          session2 = (if au_is_host data then session1\<lparr>s_host_id := Some player_id\<rparr>
                      else session1);
          session3 = session2\<lparr>s_players := AList.update player_id player1 (s_players session2)\<rparr>;
          response = AuthResponse websocket player_id (p_team_id player1)
                       (get_filtered_state session3 (p_team_id player1));
          (session4, announce) = broadcast_player_update session3 player1 ''add'' did now
      in (\<lparr>sessions = AList.update session_id session4 (sessions server),
           player_connections = AList.update player_id websocket (player_connections server)\<rparr>,
          response # announce))"

text \<open>The uuids drawn by one \<open>handle_auth\<close>, and the clock.\<close>

record auth_env =
  e_session_id :: string
  e_alpha_id :: string
  e_bravo_id :: string
  e_player_id :: string
  e_delta_id :: string
  e_now :: real

definition handle_auth ::
  "TacticalServer \<Rightarrow> ws \<Rightarrow> auth_request \<Rightarrow> auth_env
     \<Rightarrow> TacticalServer \<times> effect list \<times> (string \<times> string) option" where
  "handle_auth server websocket data env =
     (let callsign = strip (au_callsign data);
          session_id = strip (au_session_id data)
      in if callsign = [] then (server, [ErrorMsg websocket ''Callsign required''], None)
         else if au_is_host data then
           (let session = create_session (e_session_id env) (e_alpha_id env) (e_bravo_id env)
                            (e_now env);
                server1 = server\<lparr>sessions :=
                            AList.update (e_session_id env) session (sessions server)\<rparr>;
                (server2, es) = join_session server1 (e_session_id env) session websocket data
                                  callsign
                                  (e_player_id env) (e_delta_id env) (e_now env)
            in (server2, es, Some (e_player_id env, e_session_id env)))
         else
           (case map_of (sessions server) session_id of
              None \<Rightarrow> (server, [ErrorMsg websocket ''Session not found''], None)
            | Some session \<Rightarrow>
                (let (server2, es) = join_session server session_id session websocket data callsign
                                       (e_player_id env) (e_delta_id env) (e_now env)
                 in (server2, es, Some (e_player_id env, session_id)))))"

subsection \<open>handle_disconnect\<close>

definition handle_disconnect ::
  "TacticalServer \<Rightarrow> string \<Rightarrow> string \<Rightarrow> string \<Rightarrow> real \<Rightarrow> TacticalServer outcome" where
  "handle_disconnect server player_id session_id did now =
     (case map_of (sessions server) session_id of
        None \<Rightarrow> Done server []
      | Some session \<Rightarrow>
     (case map_of (s_players session) player_id of
        None \<Rightarrow> Done server []
      | Some player \<Rightarrow>
          (let player' = player\<lparr>p_connection_status := DISCONNECTED, p_websocket := None\<rparr>;
               session1 = session\<lparr>s_players :=
                            AList.update player_id player' (s_players session)\<rparr>
           in if map_of (player_connections server) player_id = None
              then Raised KeyError
                     (server\<lparr>sessions := AList.update session_id session1 (sessions server)\<rparr>)
              else (case broadcast_player_update session1 player' ''update'' did now of
                      (session2, es) \<Rightarrow>
                        Done \<lparr>sessions = AList.update session_id session2 (sessions server),
                              player_connections =
                                AList.delete player_id (player_connections server)\<rparr> es))))"

subsection \<open>update_loop: one tick\<close>

text \<open>
  The sweep of one session visits the players in the order of the player map;
  \<open>did\<close> gives the uuid drawn for the delta of the player flagged.
\<close>

fun sweep_players ::
  "real \<Rightarrow> (string \<Rightarrow> string) \<Rightarrow> (string \<times> Player) list \<Rightarrow> Session \<Rightarrow> Session \<times> effect list" where
  "sweep_players current_time did [] session = (session, [])"
| "sweep_players current_time did ((pid, player) # rest) session =
     (if p_connection_status player = CONNECTED \<and>
         current_time - p_last_active player > INACTIVE_TIMEOUT
      then (let player' = player\<lparr>p_connection_status := INACTIVE\<rparr>;
                session1 = session\<lparr>s_players := AList.update pid player' (s_players session)\<rparr>;
                (session2, e) = broadcast_player_update session1 player' ''update'' (did pid)
                                  current_time;
                (session3, es) = sweep_players current_time did rest session2
            in (session3, e @ es))
      else sweep_players current_time did rest session)"

definition sweep_session ::
  "real \<Rightarrow> (string \<Rightarrow> string) \<Rightarrow> Session \<Rightarrow> Session \<times> effect list" where
  "sweep_session current_time did session =
     sweep_players current_time did (s_players session) session"

definition update_tick ::
  "TacticalServer \<Rightarrow> (string \<Rightarrow> string \<Rightarrow> string) \<Rightarrow> real \<Rightarrow> TacticalServer \<times> effect list" where
  "update_tick server did current_time =
     (let swept = map (\<lambda>(sid, session). (sid, sweep_session current_time (did sid) session))
                    (sessions server);
          sessions1 = map (\<lambda>(sid, r). (sid, fst r)) swept;
          sent = concat (map (\<lambda>(sid, r). snd r) swept)
      in (server\<lparr>sessions := filter (\<lambda>(sid, session). s_players session \<noteq> []) sessions1\<rparr>,
          sent))"

section \<open>Sequence numbers\<close>

fun sequence_numbers :: "effect list \<Rightarrow> int list" where
  "sequence_numbers [] = []"
| "sequence_numbers (StateDeltaMsg d rcpts # es) = d_sequence_number d # sequence_numbers es"
| "sequence_numbers (e # es) = sequence_numbers es"

text \<open>A run of broadcasts on one session: each with its delta, scope, uuid and clock.\<close>

fun broadcast_all ::
  "Session \<Rightarrow> (StateDelta \<times> string option \<times> string \<times> real) list \<Rightarrow> Session \<times> effect list" where
  "broadcast_all session [] = (session, [])"
| "broadcast_all session ((delta, team_id, did, now) # rest) =
     (case broadcast_delta session delta team_id did now of
        (session1, e) \<Rightarrow>
          (case broadcast_all session1 rest of (session2, es) \<Rightarrow> (session2, e @ es)))"

section \<open>Outcomes, invariants and specification predicates\<close>

fun state_of :: "'s outcome \<Rightarrow> 's" where
  "state_of (Done s es) = s"
| "state_of (Raised e s) = s"

fun sent_of :: "'s outcome \<Rightarrow> effect list" where
  "sent_of (Done s es) = es"
| "sent_of (Raised e s) = []"

text \<open>A broadcast with this scope has a task: there is somebody to send to.\<close>

definition reaches :: "Session \<Rightarrow> string option \<Rightarrow> bool" where
  "reaches session team_id =
     (case target_players session team_id of
        None \<Rightarrow> False
      | Some targets \<Rightarrow> tasks targets \<noteq> {})"

text \<open>
  The membership invariant of a session. Both dictionaries have distinct keys, no team
  has the empty id (team ids are uuid strings), a player with a team is a member of
  that team, and every member of a team is a player of the session whose team is that
  team.
\<close>

definition consistent :: "Session \<Rightarrow> bool" where
  "consistent session =
     (distinct (map fst (s_players session)) \<and>
      distinct (map fst (s_teams session)) \<and>
      [] \<notin> set (map fst (s_teams session)) \<and>
      (\<forall>(pid, player) \<in> set (s_players session).
         case p_team_id player of
           None \<Rightarrow> True
         | Some tid \<Rightarrow>
             (case map_of (s_teams session) tid of
                None \<Rightarrow> False
              | Some team \<Rightarrow> pid \<in> t_players team)) \<and>
      (\<forall>(tid, team) \<in> set (s_teams session). \<forall>pid \<in> t_players team.
         case map_of (s_players session) pid of
           None \<Rightarrow> False
         | Some player \<Rightarrow> p_team_id player = Some tid))"

definition server_consistent :: "TacticalServer \<Rightarrow> bool" where
  "server_consistent server = (\<forall>(sid, session) \<in> set (sessions server). consistent session)"

text \<open>
  The invariant in the words of the specification: the team of a player exists, has the
  player as a member, and no other team has.
\<close>

definition team_membership :: "Session \<Rightarrow> bool" where
  "team_membership session =
     (\<forall>(pid, player) \<in> set (s_players session).
        case p_team_id player of
          None \<Rightarrow> True
        | Some tid \<Rightarrow>
            (case map_of (s_teams session) tid of
               None \<Rightarrow> False
             | Some team \<Rightarrow>
                 pid \<in> t_players team \<and>
                 (\<forall>(tid', team') \<in> set (s_teams session). tid' \<noteq> tid \<longrightarrow> pid \<notin> t_players team')))"

text \<open>\<open>x\<close> is the first element of \<open>xs\<close> at which \<open>f\<close> is least.\<close>

definition first_min :: "('a \<Rightarrow> nat) \<Rightarrow> 'a list \<Rightarrow> 'a \<Rightarrow> bool" where
  "first_min f xs x =
     (x \<in> set xs \<and> (\<forall>y \<in> set xs. f x \<le> f y) \<and>
      (\<forall>y \<in> set (takeWhile (\<lambda>y. y \<noteq> x) xs). f x < f y))"

text \<open>
  The messages of a snapshot in the words of the specification: the most recent 50 of
  the events that the viewer's team may see.
\<close>

definition recent_visible :: "string option \<Rightarrow> Message list \<Rightarrow> Message list" where
  "recent_visible team_id messages = last_n 50 (filter (message_visible team_id) messages)"

section \<open>A scenario\<close>

text \<open>
  A host opens a session and is placed in Alpha; a second player joins and is placed in
  Bravo. The host pins a team marker, moves to Bravo, and then edits the marker.
\<close>

definition sc_host_request :: auth_request where
  "sc_host_request =
     \<lparr>au_callsign = ''one'', au_session_id = [], au_is_host = True, au_device_info = []\<rparr>"

definition sc_join_request :: auth_request where
  "sc_join_request =
     \<lparr>au_callsign = ''two'', au_session_id = ''S'', au_is_host = False, au_device_info = []\<rparr>"

definition sc_host_env :: auth_env where
  "sc_host_env =
     \<lparr>e_session_id = ''S'', e_alpha_id = ''A'', e_bravo_id = ''B'', e_player_id = ''P1'',
      e_delta_id = ''d1'', e_now = 0\<rparr>"

definition sc_join_env :: auth_env where
  "sc_join_env =
     \<lparr>e_session_id = ''S2'', e_alpha_id = ''A2'', e_bravo_id = ''B2'', e_player_id = ''P2'',
      e_delta_id = ''d2'', e_now = 0\<rparr>"

definition sc_server0 :: TacticalServer where
  "sc_server0 = \<lparr>sessions = [], player_connections = []\<rparr>"

definition sc_server1 :: TacticalServer where
  "sc_server1 = fst (handle_auth sc_server0 1 sc_host_request sc_host_env)"

definition sc_server2 :: TacticalServer where
  "sc_server2 = fst (handle_auth sc_server1 2 sc_join_request sc_join_env)"

definition sc_create_marker :: client_message where
  "sc_create_marker =
     MARKER \<lparr>mr_action = Some ''create'', mr_marker_id = None,
             mr_marker_data = Some \<lparr>md_type = Some ''pin'', md_visibility = Some ''team'',
               md_position = Some [(''latitude'', 0), (''longitude'', 0)],
               md_properties = None\<rparr>\<rparr>"

definition sc_server3 :: TacticalServer where
  "sc_server3 =
     state_of (handle_message exact_arithmetic sc_server2 ''P1'' ''S'' sc_create_marker
                 ''M'' ''d3'' 0)"

definition sc_move_host :: client_message where
  "sc_move_host =
     TEAM_UPDATE \<lparr>tu_action = Some ''assign_player'', tu_player_id = Some ''P1'',
                  tu_team_id = Some ''B''\<rparr>"

definition sc_server4 :: TacticalServer where
  "sc_server4 =
     state_of (handle_message exact_arithmetic sc_server3 ''P1'' ''S'' sc_move_host
                 ''u4'' ''d4'' 0)"

definition sc_update_marker :: marker_request where
  "sc_update_marker =
     \<lparr>mr_action = Some ''update'', mr_marker_id = Some ''M'',
      mr_marker_data = Some \<lparr>md_type = None, md_visibility = None, md_position = None,
        md_properties = Some [(''label'', ''x'')]\<rparr>\<rparr>"

text \<open>The states of the scenario, written out.\<close>

definition sc_alpha :: Team where
  "sc_alpha =
     \<lparr>t_team_id = ''A'', t_name = ''Alpha'', t_color = ''#00FF00'', t_players = {''P1''},
      t_markers = {}\<rparr>"

definition sc_bravo :: Team where
  "sc_bravo =
     \<lparr>t_team_id = ''B'', t_name = ''Bravo'', t_color = ''#FF0000'', t_players = {},
      t_markers = {}\<rparr>"

definition sc_player1 :: Player where
  "sc_player1 =
     \<lparr>p_player_id = ''P1'', p_callsign = ''one'', p_team_id = Some ''A'',
      p_connection_status = CONNECTED, p_last_active = 0, p_position = None,
      p_device_info = [], p_websocket = Some 1\<rparr>"

definition sc_player2 :: Player where
  "sc_player2 =
     \<lparr>p_player_id = ''P2'', p_callsign = ''two'', p_team_id = Some ''B'',
      p_connection_status = CONNECTED, p_last_active = 0, p_position = None,
      p_device_info = [], p_websocket = Some 2\<rparr>"

definition sc_session1 :: Session where
  "sc_session1 =
     \<lparr>s_session_id = ''S'', s_created_at = 0, s_last_active = 0, s_host_id = Some ''P1'',
      s_teams = [(''A'', sc_alpha), (''B'', sc_bravo)], s_settings = [],
      s_players = [(''P1'', sc_player1)], s_markers = [], s_messages = [],
      s_sequence_number = 1\<rparr>"

definition sc_session2 :: Session where
  "sc_session2 =
     sc_session1\<lparr>s_teams := [(''A'', sc_alpha), (''B'', sc_bravo\<lparr>t_players := {''P2''}\<rparr>)],
       s_players := [(''P1'', sc_player1), (''P2'', sc_player2)], s_sequence_number := 2\<rparr>"

definition sc_marker :: Marker where
  "sc_marker =
     \<lparr>m_marker_id = ''M'', m_type = PIN, m_created_by = ''P1'', m_team_id = Some ''A'',
      m_visibility = V_TEAM,
      m_position = \<lparr>latitude = 0, longitude = 0, heading = 0, accuracy = 0, elevation = 0,
                     updated_at = 0\<rparr>,
      m_properties = [], m_created_at = 0, m_expires_at = None\<rparr>"

definition sc_session4 :: Session where
  "sc_session4 =
     sc_session2\<lparr>s_teams := [(''A'', sc_alpha\<lparr>t_players := {}, t_markers := {''M''}\<rparr>),
                              (''B'', sc_bravo\<lparr>t_players := {''P1'', ''P2''}\<rparr>)],
       s_players := [(''P1'', sc_player1\<lparr>p_team_id := Some ''B''\<rparr>), (''P2'', sc_player2)],
       s_markers := [(''M'', sc_marker)], s_sequence_number := 4\<rparr>"

text \<open>Positions and messages for the scenario.\<close>

definition sc_origin :: Position where
  "sc_origin =
     \<lparr>latitude = 0, longitude = 0, heading = 0, accuracy = 0, elevation = 0, updated_at = 0\<rparr>"





definition sc_msg_all :: Message where
  "sc_msg_all =
     \<lparr>msg_message_id = ''m0'', msg_sender_id = ''P1'', msg_team_id = Some ''A'',
      msg_visibility = V_ALL, msg_type = ''chat'', msg_content = ''hello'', msg_sent_at = 0,
      msg_location = None\<rparr>"

definition sc_msg_bravo :: Message where
  "sc_msg_bravo =
     \<lparr>msg_message_id = ''m1'', msg_sender_id = ''P2'', msg_team_id = Some ''B'',
      msg_visibility = V_TEAM, msg_type = ''chat'', msg_content = ''bravo only'',
      msg_sent_at = 0, msg_location = None\<rparr>"

definition sc_contact_alert :: alert_data where
  "sc_contact_alert =
     \<lparr>al_alert_type = Some ''contact'', al_location = None, al_visibility = Some ''all''\<rparr>"


definition sc_player1_at_origin :: Player where
  "sc_player1_at_origin = sc_player1\<lparr>p_position := Some sc_origin\<rparr>"

definition sc_session_at_origin :: Session where
  "sc_session_at_origin =
     sc_session2\<lparr>s_players := [(''P1'', sc_player1_at_origin), (''P2'', sc_player2)]\<rparr>"

text \<open>
  The first player has sent one chat to everybody, then the second 50 chats to the
  second's team.
\<close>

definition sc_chat_session :: Session where
  "sc_chat_session = sc_session2\<lparr>s_messages := sc_msg_all # replicate 50 sc_msg_bravo\<rparr>"

text \<open>
  The host of the fresh session closes the connection while alone, then the second
  player joins.
\<close>

definition sc_server1_closed :: TacticalServer where
  "sc_server1_closed = state_of (handle_disconnect sc_server1 ''P1'' ''S'' ''d2'' 0)"

text \<open>A session whose message list is full.\<close>

definition sc_full_session :: Session where
  "sc_full_session = sc_session2\<lparr>s_messages := replicate 100 sc_msg_bravo\<rparr>"

section \<open>The scenario, evaluated\<close>

lemmas scenario_defs =
  sc_host_request_def sc_join_request_def sc_host_env_def sc_join_env_def sc_server0_def
  sc_create_marker_def sc_move_host_def sc_update_marker_def sc_alpha_def sc_bravo_def
  sc_player1_def sc_player2_def sc_session1_def sc_session2_def sc_marker_def sc_session4_def
  sc_origin_def sc_player1_at_origin_def sc_session_at_origin_def

lemmas auth_defs =
  handle_auth_def join_session_def create_session_def new_Session_def new_Team_def
  assign_team_def team_count_def strip_def isspace_def broadcast_player_update_def
  broadcast_delta_def target_players_def tasks_def to_dict_def add_change_def
  get_filtered_state_def Let_def

lemmas message_defs =
  handle_message_def put_session_def handle_marker_def marker_create_def marker_update_def
  handle_team_update_def scoped_broadcast_def broadcast_def MarkerType_of_def Visibility_of_def
  Position_of_dict_def Position_fields_def get_default_def dict_update_def
  broadcast_delta_def target_players_def tasks_def to_dict_def add_change_def Let_def

lemma sc_server1_eq:
  "sc_server1 = \<lparr>sessions = [(''S'', sc_session1)], player_connections = [(''P1'', 1)]\<rparr>"
  by (simp add: sc_server1_def scenario_defs auth_defs)

lemma sc_server2_eq:
  "sc_server2 =
     \<lparr>sessions = [(''S'', sc_session2)], player_connections = [(''P1'', 1), (''P2'', 2)]\<rparr>"
  unfolding sc_server2_def sc_server1_eq by (simp add: scenario_defs auth_defs)

lemma sc_server3_eq:
  "sc_server3 =
     \<lparr>sessions = [(''S'', sc_session2\<lparr>s_teams := [(''A'', sc_alpha\<lparr>t_markers := {''M''}\<rparr>),
                                                  (''B'', sc_bravo\<lparr>t_players := {''P2''}\<rparr>)],
                       s_markers := [(''M'', sc_marker)], s_sequence_number := 3\<rparr>)],
      player_connections = [(''P1'', 1), (''P2'', 2)]\<rparr>"
  unfolding sc_server3_def sc_server2_eq by (simp add: scenario_defs message_defs)

lemma sc_server4_eq:
  "sc_server4 =
     \<lparr>sessions = [(''S'', sc_session4)], player_connections = [(''P1'', 1), (''P2'', 2)]\<rparr>"
  unfolding sc_server4_def sc_server3_eq by (simp add: scenario_defs message_defs)

section \<open>Recipients of a broadcast\<close>

lemma target_players_team:
  assumes "tid \<noteq> []" "map_of (s_teams s) tid = Some team"
  shows "target_players s (Some tid) =
           Some {p. \<exists>pid \<in> t_players team. map_of (s_players s) pid = Some p}"
  using assms by (force simp: target_players_def image_iff)

lemma tasks_eq:
  "tasks T = {(p_player_id p, w) | p w.
                p \<in> T \<and> p_websocket p = Some w \<and> p_connection_status p = CONNECTED}"
  by (auto simp: tasks_def image_iff)

text \<open>
  A broadcast with the scope of an existing team goes to exactly the members of the team
  that are players of the session, connected, with a live websocket; a broadcast with no
  scope goes to exactly the connected players of the session with a live websocket; a
  broadcast to a team that does not exist goes to nobody. With no recipient nothing is
  sent. The sequence number is raised in every case.
\<close>

lemma broadcast_delta_team:
  assumes "tid \<noteq> []" "map_of (s_teams s) tid = Some team"
    and "R = {(p_player_id p, w) | p w.
                (\<exists>pid \<in> t_players team. map_of (s_players s) pid = Some p) \<and>
                p_websocket p = Some w \<and> p_connection_status p = CONNECTED}"
  shows "broadcast_delta s d (Some tid) did now =
    (s\<lparr>s_sequence_number := s_sequence_number s + 1\<rparr>,
     if R = {} then []
     else [StateDeltaMsg (to_dict d (s_session_id s) (s_sequence_number s + 1) did now) R])"
  using assms by (simp add: broadcast_delta_def Let_def target_players_team tasks_eq)

lemma broadcast_delta_all:
  assumes "team_id = None \<or> team_id = Some []"
    and "R = {(p_player_id p, w) | p w.
                p \<in> snd ` set (s_players s) \<and>
                p_websocket p = Some w \<and> p_connection_status p = CONNECTED}"
  shows "broadcast_delta s d team_id did now =
    (s\<lparr>s_sequence_number := s_sequence_number s + 1\<rparr>,
     if R = {} then []
     else [StateDeltaMsg (to_dict d (s_session_id s) (s_sequence_number s + 1) did now) R])"
  using assms by (auto simp add: broadcast_delta_def Let_def target_players_def tasks_eq)

lemma broadcast_delta_unknown_team:
  assumes "tid \<noteq> []" "map_of (s_teams s) tid = None"
  shows "broadcast_delta s d (Some tid) did now =
    (s\<lparr>s_sequence_number := s_sequence_number s + 1\<rparr>, [])"
  using assms by (simp add: broadcast_delta_def Let_def target_players_def)

lemma broadcast_delta_fst:
  "fst (broadcast_delta s d t did now) = s\<lparr>s_sequence_number := s_sequence_number s + 1\<rparr>"
  by (simp add: broadcast_delta_def Let_def split: option.splits)

lemma broadcast_delta_snd:
  "snd (broadcast_delta s d t did now) = [] \<or>
   (\<exists>rcpts. rcpts \<noteq> {} \<and>
      snd (broadcast_delta s d t did now) =
        [StateDeltaMsg (to_dict d (s_session_id s) (s_sequence_number s + 1) did now) rcpts])"
  by (simp add: broadcast_delta_def Let_def split: option.splits)

section \<open>Sequence numbers of broadcasts\<close>

lemma upt_0_Suc: "[0..<Suc n] = 0 # map Suc [0..<n]"
  by (metis map_Suc_upt upt_conv_Cons zero_less_Suc)

lemma sequence_numbers_append:
  "sequence_numbers (xs @ ys) = sequence_numbers xs @ sequence_numbers ys"
  by (induction xs rule: sequence_numbers.induct) simp_all

lemma reaches_sequence_number:
  "reaches (s\<lparr>s_sequence_number := n\<rparr>) t = reaches s t"
  by (auto simp: reaches_def target_players_def split: option.splits)

lemma broadcast_delta_reaches:
  "snd (broadcast_delta s d t did now) =
     (if reaches s t
      then [StateDeltaMsg (to_dict d (s_session_id s) (s_sequence_number s + 1) did now)
              (tasks (the (target_players s t)))]
      else [])"
  by (simp add: broadcast_delta_def reaches_def Let_def target_players_def
      split: option.splits)

lemma broadcast_delta_numbers:
  "sequence_numbers (snd (broadcast_delta s d t did now)) =
     (if reaches s t then [s_sequence_number s + 1] else [])"
  by (simp add: broadcast_delta_reaches to_dict_def)

lemma filter_upt_Suc:
  "filter P [0..<Suc n] = (if P 0 then [0] else []) @ map Suc (filter (\<lambda>k. P (Suc k)) [0..<n])"
  by (simp add: upt_0_Suc filter_map comp_def del: upt_Suc)

lemma broadcast_all_numbers:
  "sequence_numbers (snd (broadcast_all s reqs)) =
     map (\<lambda>k. s_sequence_number s + 1 + int k)
       (filter (\<lambda>k. reaches s (fst (snd (reqs ! k)))) [0..<length reqs]) \<and>
   fst (broadcast_all s reqs) = s\<lparr>s_sequence_number := s_sequence_number s + int (length reqs)\<rparr>"
proof (induction reqs arbitrary: s)
  case Nil
  then show ?case by simp
next
  case (Cons r reqs)
  obtain delta team_id did now where r: "r = (delta, team_id, did, now)"
    by (cases r) auto
  let ?s1 = "s\<lparr>s_sequence_number := s_sequence_number s + 1\<rparr>"
  let ?e = "snd (broadcast_delta s delta team_id did now)"
  obtain s2 es where a: "broadcast_all ?s1 reqs = (s2, es)"
    by fastforce
  from Cons.IH[of ?s1] a
  have ih: "sequence_numbers es =
      map (\<lambda>k. s_sequence_number s + 1 + 1 + int k)
        (filter (\<lambda>k. reaches s (fst (snd (reqs ! k)))) [0..<length reqs])"
    "s2 = s\<lparr>s_sequence_number := s_sequence_number s + 1 + int (length reqs)\<rparr>"
    by (simp_all add: reaches_sequence_number)
  have e: "sequence_numbers ?e = (if reaches s team_id then [s_sequence_number s + 1] else [])"
    by (rule broadcast_delta_numbers)
  have all: "broadcast_all s (r # reqs) = (s2, ?e @ es)"
    unfolding r by (simp add: case_prod_beta broadcast_delta_fst a)
  have f: "filter (\<lambda>k. reaches s (fst (snd ((r # reqs) ! k)))) [0..<length (r # reqs)] =
      (if reaches s team_id then [0] else []) @
      map Suc (filter (\<lambda>k. reaches s (fst (snd (reqs ! k)))) [0..<length reqs])"
    using filter_upt_Suc[of "\<lambda>k. reaches s (fst (snd ((r # reqs) ! k)))" "length reqs"]
    by (simp add: r)
  have n: "sequence_numbers (snd (broadcast_all s (r # reqs))) =
     map (\<lambda>k. s_sequence_number s + 1 + int k)
       (filter (\<lambda>k. reaches s (fst (snd ((r # reqs) ! k)))) [0..<length (r # reqs)])"
    unfolding f all by (simp add: sequence_numbers_append e ih(1) comp_def add.assoc)
  have c: "fst (broadcast_all s (r # reqs)) =
      s\<lparr>s_sequence_number := s_sequence_number s + int (length (r # reqs))\<rparr>"
    unfolding all by (simp add: ih(2) add.assoc)
  show ?case
    by (rule conjI[OF n c])
qed

lemma map_upt_upto: "map (\<lambda>k. n + 1 + int k) [0..<m] = [n + 1..n + int m]"
proof (induction m)
  case 0
  then show ?case by simp
next
  case (Suc m)
  have "[n + 1..n + int (Suc m)] = [n + 1..n + int m] @ [n + int m + 1]"
    using upto_rec2[of "n + 1" "n + int m + 1"] by (simp add: add.commute add.left_commute)
  then show ?case using Suc by (simp add: add.commute add.left_commute)
qed

lemma sorted_wrt_map_filter_upt:
  "sorted_wrt (<) (map (\<lambda>k. (n::int) + 1 + int k) (filter P [0..<m]))"
proof -
  have "sorted_wrt (<) (filter P [0..<m])"
    by (rule sorted_wrt_filter) (simp add: sorted_wrt_upt)
  then show ?thesis
    by (simp add: sorted_wrt_map)
qed

section \<open>What the handlers leave in the registry\<close>

lemma state_of_broadcast:
  "state_of (broadcast (broadcast_delta s d t did now)) =
     s\<lparr>s_sequence_number := s_sequence_number s + 1\<rparr>"
  by (simp add: broadcast_def case_prod_beta broadcast_delta_fst)

lemma state_of_put_session:
  "state_of (put_session server k r) =
     server\<lparr>sessions := AList.update k (state_of r) (sessions server)\<rparr>"
  by (cases r) (simp_all add: put_session_def)

text \<open>
  A message of an authenticated player leaves the registry as it is, or replaces the
  session of the player by the state that one of the five handlers leaves.
\<close>

lemma handle_message_state:
  assumes "\<And>session player d. map_of (s_players session) pid = Some player \<Longrightarrow>
             Q session (state_of (handle_position_update fl session player d did now))"
    and "\<And>session player d. map_of (s_players session) pid = Some player \<Longrightarrow>
             Q session (state_of (handle_chat session player d uid did now))"
    and "\<And>session player d. map_of (s_players session) pid = Some player \<Longrightarrow>
             Q session (state_of (handle_alert session player d uid did now))"
    and "\<And>session player d. map_of (s_players session) pid = Some player \<Longrightarrow>
             Q session (state_of (handle_marker session player d uid did now))"
    and "\<And>session d. Q session (state_of (handle_team_update session d did now))"
  shows "state_of (handle_message fl server pid sid data uid did now) = server \<or>
     (\<exists>session X. map_of (sessions server) sid = Some session \<and> Q session X \<and>
        state_of (handle_message fl server pid sid data uid did now) =
          server\<lparr>sessions := AList.update sid X (sessions server)\<rparr>)"
proof (cases "map_of (sessions server) sid")
  case None
  then show ?thesis by (simp add: handle_message_def)
next
  case (Some session)
  note s = Some
  show ?thesis
  proof (cases "map_of (s_players session) pid")
    case None
    then show ?thesis using s by (simp add: handle_message_def)
  next
    case (Some player)
    note p = Some
    show ?thesis
    proof (cases data)
      case (POSITION_UPDATE d)
      have "state_of (handle_message fl server pid sid data uid did now) =
          server\<lparr>sessions := AList.update sid
            (state_of (handle_position_update fl session player d did now)) (sessions server)\<rparr>"
        by (simp add: handle_message_def s p POSITION_UPDATE state_of_put_session)
      then show ?thesis using assms(1)[OF p, of d] s by blast
    next
      case (CHAT d)
      have "state_of (handle_message fl server pid sid data uid did now) =
          server\<lparr>sessions := AList.update sid
            (state_of (handle_chat session player d uid did now)) (sessions server)\<rparr>"
        by (simp add: handle_message_def s p CHAT state_of_put_session)
      then show ?thesis using assms(2)[OF p, of d] s by blast
    next
      case (ALERT d)
      have "state_of (handle_message fl server pid sid data uid did now) =
          server\<lparr>sessions := AList.update sid
            (state_of (handle_alert session player d uid did now)) (sessions server)\<rparr>"
        by (simp add: handle_message_def s p ALERT state_of_put_session)
      then show ?thesis using assms(3)[OF p, of d] s by blast
    next
      case (MARKER d)
      have "state_of (handle_message fl server pid sid data uid did now) =
          server\<lparr>sessions := AList.update sid
            (state_of (handle_marker session player d uid did now)) (sessions server)\<rparr>"
        by (simp add: handle_message_def s p MARKER state_of_put_session)
      then show ?thesis using assms(4)[OF p, of d] s by blast
    next
      case (TEAM_UPDATE d)
      show ?thesis
      proof (cases "Some pid = s_host_id session")
        case True
        have "state_of (handle_message fl server pid sid data uid did now) =
            server\<lparr>sessions := AList.update sid
              (state_of (handle_team_update session d did now)) (sessions server)\<rparr>"
          by (simp add: handle_message_def s p TEAM_UPDATE True state_of_put_session)
        then show ?thesis using assms(5)[of session d] s by blast
      next
        case False
        then show ?thesis by (simp add: handle_message_def s p TEAM_UPDATE)
      qed
    next
      case (OTHER t)
      then show ?thesis by (simp add: handle_message_def s p)
    qed
  qed
qed

text \<open>The sequence number of a session never goes down in a handler.\<close>

lemma handle_position_update_counter:
  "s_sequence_number session \<le>
     s_sequence_number (state_of (handle_position_update fl session player d did now))"
  by (simp add: handle_position_update_def Let_def state_of_broadcast store_player_def
      split: option.splits sum.splits)

lemma handle_chat_counter:
  "s_sequence_number session \<le>
     s_sequence_number (state_of (handle_chat session player d uid did now))"
  by (simp add: handle_chat_def Let_def state_of_broadcast split: option.splits sum.splits)

lemma handle_alert_counter:
  "s_sequence_number session \<le>
     s_sequence_number (state_of (handle_alert session player d uid did now))"
  by (simp add: handle_alert_def Let_def state_of_broadcast split: option.splits sum.splits)

lemma handle_marker_counter:
  "s_sequence_number session \<le>
     s_sequence_number (state_of (handle_marker session player d uid did now))"
  by (simp add: handle_marker_def marker_create_def marker_update_def marker_delete_def
      scoped_broadcast_def Let_def state_of_broadcast
      split: option.splits sum.splits prod.splits)

lemma handle_team_update_counter:
  "s_sequence_number session \<le>
     s_sequence_number (state_of (handle_team_update session d did now))"
  by (simp add: handle_team_update_def Let_def state_of_broadcast
      split: option.splits sum.splits)

lemma handle_message_counter:
  assumes "map_of (sessions server) k = Some s"
    and "map_of (sessions (state_of (handle_message fl server pid sid data uid did now))) k =
           Some s'"
  shows "s_sequence_number s \<le> s_sequence_number s'"
proof -
  from handle_message_state[where Q = "\<lambda>a b. s_sequence_number a \<le> s_sequence_number b"
      and fl = fl and pid = pid and did = did and now = now and uid = uid and server = server
      and sid = sid and data = data,
      OF handle_position_update_counter handle_chat_counter handle_alert_counter
         handle_marker_counter handle_team_update_counter]
  consider "state_of (handle_message fl server pid sid data uid did now) = server"
    | session X where "map_of (sessions server) sid = Some session"
        "s_sequence_number session \<le> s_sequence_number X"
        "state_of (handle_message fl server pid sid data uid did now) =
           server\<lparr>sessions := AList.update sid X (sessions server)\<rparr>"
    by blast
  then show ?thesis
  proof cases
    case 1
    then show ?thesis using assms by simp
  next
    case 2
    then show ?thesis using assms by (cases "k = sid") (simp_all add: update_conv')
  qed
qed

lemma broadcast_player_update_eq:
  assumes "R = {(p_player_id p, w) | p w.
                p \<in> snd ` set (s_players s) \<and>
                p_websocket p = Some w \<and> p_connection_status p = CONNECTED}"
  shows "broadcast_player_update s player change_type did now =
     (s\<lparr>s_sequence_number := s_sequence_number s + 1\<rparr>,
      if R = {} then []
      else [StateDeltaMsg
        \<lparr>d_delta_id = did, d_session_id = s_session_id s, d_timestamp = now,
         d_sequence_number = s_sequence_number s + 1,
         d_changes = [\<lparr>c_type = change_type, c_entity_type = ''player'',
                        c_entity_id = p_player_id player,
                        c_data = PlayerData \<lparr>pd_player_id = p_player_id player,
                                   pd_callsign = p_callsign player, pd_team_id = p_team_id player,
                                   pd_connection_status = p_connection_status player\<rparr>,
                        c_timestamp = now\<rparr>]\<rparr> R])"
  unfolding broadcast_player_update_def Let_def add_change_def
  by (subst broadcast_delta_all[where R = R]) (simp_all add: assms to_dict_def)

lemma broadcast_player_update_fst:
  "fst (broadcast_player_update s player change_type did now) =
     s\<lparr>s_sequence_number := s_sequence_number s + 1\<rparr>"
  by (simp add: broadcast_player_update_def Let_def broadcast_delta_fst)

text \<open>
  A disconnect leaves the registry as it is, or replaces the session by itself with the
  player's status and websocket cleared and the sequence number as it was (when the
  connection is not registered) or one higher.
\<close>

lemma handle_disconnect_state:
  "state_of (handle_disconnect server pid sid did now) = server \<or>
   (\<exists>session player n.
      map_of (sessions server) sid = Some session \<and>
      map_of (s_players session) pid = Some player \<and>
      (n = s_sequence_number session \<or> n = s_sequence_number session + 1) \<and>
      sessions (state_of (handle_disconnect server pid sid did now)) =
        AList.update sid
          (session\<lparr>s_players := AList.update pid
                       (player\<lparr>p_connection_status := DISCONNECTED, p_websocket := None\<rparr>)
                       (s_players session),
                   s_sequence_number := n\<rparr>) (sessions server))"
proof (cases "map_of (sessions server) sid")
  case None
  then show ?thesis by (simp add: handle_disconnect_def)
next
  case (Some session)
  note s = Some
  show ?thesis
  proof (cases "map_of (s_players session) pid")
    case None
    then show ?thesis using s by (simp add: handle_disconnect_def)
  next
    case (Some player)
    let ?s1 = "session\<lparr>s_players := AList.update pid
                       (player\<lparr>p_connection_status := DISCONNECTED, p_websocket := None\<rparr>)
                       (s_players session)\<rparr>"
    show ?thesis
    proof (cases "map_of (player_connections server) pid")
      case None
      have "sessions (state_of (handle_disconnect server pid sid did now)) =
          AList.update sid (?s1\<lparr>s_sequence_number := s_sequence_number session\<rparr>)
            (sessions server)"
        by (simp add: handle_disconnect_def s Some None Let_def)
      then show ?thesis using s Some by blast
    next
      case (Some w)
      note w = Some
      have "sessions (state_of (handle_disconnect server pid sid did now)) =
          AList.update sid (?s1\<lparr>s_sequence_number := s_sequence_number session + 1\<rparr>)
            (sessions server)"
        by (simp add: handle_disconnect_def s \<open>map_of (s_players session) pid = Some player\<close> w
            Let_def case_prod_beta broadcast_player_update_fst)
      then show ?thesis using s \<open>map_of (s_players session) pid = Some player\<close> by blast
    qed
  qed
qed

lemma handle_disconnect_counter:
  assumes "map_of (sessions server) k = Some s"
    and "map_of (sessions (state_of (handle_disconnect server pid sid did now))) k = Some s'"
  shows "s_sequence_number s \<le> s_sequence_number s'"
proof -
  from handle_disconnect_state[of server pid sid did now]
  consider "state_of (handle_disconnect server pid sid did now) = server"
    | session player n where "map_of (sessions server) sid = Some session"
        "n = s_sequence_number session \<or> n = s_sequence_number session + 1"
        "sessions (state_of (handle_disconnect server pid sid did now)) =
          AList.update sid
            (session\<lparr>s_players := AList.update pid
                       (player\<lparr>p_connection_status := DISCONNECTED, p_websocket := None\<rparr>)
                       (s_players session),
                   s_sequence_number := n\<rparr>) (sessions server)"
    by blast
  then show ?thesis
  proof cases
    case 1
    then show ?thesis using assms by simp
  next
    case 2
    then show ?thesis using assms by (cases "k = sid") (auto simp: update_conv')
  qed
qed

text \<open>The session that \<open>join_session\<close> stores, in terms of \<open>assign_team\<close>.\<close>

lemma join_session_sessions:
  "\<exists>session'.
     sessions (fst (join_session server sid session websocket data callsign pid did now)) =
       AList.update sid session' (sessions server) \<and>
     s_teams session' =
       s_teams (fst (assign_team session
         \<lparr>p_player_id = pid, p_callsign = callsign, p_team_id = None,
          p_connection_status = CONNECTED, p_last_active = now, p_position = None,
          p_device_info = au_device_info data, p_websocket = Some websocket\<rparr> pid)) \<and>
     s_players session' =
       AList.update pid
         (snd (assign_team session
           \<lparr>p_player_id = pid, p_callsign = callsign, p_team_id = None,
            p_connection_status = CONNECTED, p_last_active = now, p_position = None,
            p_device_info = au_device_info data, p_websocket = Some websocket\<rparr> pid))
         (s_players session) \<and>
     s_sequence_number session' = s_sequence_number session + 1"
proof -
  let ?p0 = "\<lparr>p_player_id = pid, p_callsign = callsign, p_team_id = None,
          p_connection_status = CONNECTED, p_last_active = now, p_position = None,
          p_device_info = au_device_info data, p_websocket = Some websocket\<rparr>"
  obtain s1 p1 where a: "assign_team session ?p0 pid = (s1, p1)"
    by fastforce
  have p: "s_players s1 = s_players session" "s_sequence_number s1 = s_sequence_number session"
    using a by (auto simp: assign_team_def Let_def split: list.splits)
  let ?s' = "(if au_is_host data then s1\<lparr>s_host_id := Some pid\<rparr> else s1)
     \<lparr>s_players := AList.update pid p1 (s_players session),
      s_sequence_number := s_sequence_number s1 + 1\<rparr>"
  have e: "sessions (fst (join_session server sid session websocket data callsign pid did now)) =
       AList.update sid ?s' (sessions server)"
    by (simp add: join_session_def Let_def a case_prod_beta broadcast_player_update_fst p)
  show ?thesis
    by (rule exI[of _ ?s']) (simp add: e a p)
qed

lemma handle_auth_host:
  assumes "strip (au_callsign data) \<noteq> []" and "au_is_host data"
  shows "handle_auth server websocket data env =
     (fst (join_session
            (server\<lparr>sessions := AList.update (e_session_id env)
               (create_session (e_session_id env) (e_alpha_id env) (e_bravo_id env) (e_now env))
               (sessions server)\<rparr>)
            (e_session_id env)
            (create_session (e_session_id env) (e_alpha_id env) (e_bravo_id env) (e_now env))
            websocket data (strip (au_callsign data)) (e_player_id env) (e_delta_id env)
            (e_now env)),
      snd (join_session
            (server\<lparr>sessions := AList.update (e_session_id env)
               (create_session (e_session_id env) (e_alpha_id env) (e_bravo_id env) (e_now env))
               (sessions server)\<rparr>)
            (e_session_id env)
            (create_session (e_session_id env) (e_alpha_id env) (e_bravo_id env) (e_now env))
            websocket data (strip (au_callsign data)) (e_player_id env) (e_delta_id env)
            (e_now env)),
      Some (e_player_id env, e_session_id env))"
  using assms by (simp add: handle_auth_def Let_def split: prod.splits)

lemma handle_auth_join:
  assumes "strip (au_callsign data) \<noteq> []" and "\<not> au_is_host data"
    and "map_of (sessions server) (strip (au_session_id data)) = Some session"
  shows "handle_auth server websocket data env =
     (fst (join_session server (strip (au_session_id data)) session websocket data
             (strip (au_callsign data)) (e_player_id env) (e_delta_id env) (e_now env)),
      snd (join_session server (strip (au_session_id data)) session websocket data
             (strip (au_callsign data)) (e_player_id env) (e_delta_id env) (e_now env)),
      Some (e_player_id env, strip (au_session_id data)))"
  using assms by (simp add: handle_auth_def Let_def split: prod.splits)

lemma handle_auth_rejected:
  assumes "strip (au_callsign data) = [] \<or>
           (\<not> au_is_host data \<and> map_of (sessions server) (strip (au_session_id data)) = None)"
  shows "fst (handle_auth server websocket data env) = server"
  using assms by (auto simp: handle_auth_def Let_def)

text \<open>
  An authentication leaves the registry as it is (when it is rejected), or stores the
  session that \<open>join_session\<close> makes of the created or the found session.
\<close>

lemma handle_auth_state:
  "fst (handle_auth server websocket data env) = server \<or>
   (\<exists>sid session session'.
      (if au_is_host data
       then sid = e_session_id env \<and>
            session = create_session (e_session_id env) (e_alpha_id env) (e_bravo_id env)
                        (e_now env)
       else sid = strip (au_session_id data) \<and> map_of (sessions server) sid = Some session) \<and>
      sessions (fst (handle_auth server websocket data env)) =
        AList.update sid session' (sessions server) \<and>
      s_teams session' =
        s_teams (fst (assign_team session
          \<lparr>p_player_id = e_player_id env, p_callsign = strip (au_callsign data),
           p_team_id = None, p_connection_status = CONNECTED, p_last_active = e_now env,
           p_position = None, p_device_info = au_device_info data,
           p_websocket = Some websocket\<rparr> (e_player_id env))) \<and>
      s_players session' =
        AList.update (e_player_id env)
          (snd (assign_team session
            \<lparr>p_player_id = e_player_id env, p_callsign = strip (au_callsign data),
             p_team_id = None, p_connection_status = CONNECTED, p_last_active = e_now env,
             p_position = None, p_device_info = au_device_info data,
             p_websocket = Some websocket\<rparr> (e_player_id env)))
          (s_players session) \<and>
      s_sequence_number session' = s_sequence_number session + 1)"
proof (cases "strip (au_callsign data) = [] \<or>
           (\<not> au_is_host data \<and> map_of (sessions server) (strip (au_session_id data)) = None)")
  case True
  then show ?thesis using handle_auth_rejected[OF True] by simp
next
  case False
  then have c: "strip (au_callsign data) \<noteq> []" by simp
  show ?thesis
  proof (cases "au_is_host data")
    case True
    let ?created = "create_session (e_session_id env) (e_alpha_id env) (e_bravo_id env) (e_now env)"
    let ?server1 = "server\<lparr>sessions := AList.update (e_session_id env) ?created (sessions server)\<rparr>"
    obtain session' where
      j: "sessions (fst (join_session ?server1 (e_session_id env) ?created websocket data
            (strip (au_callsign data)) (e_player_id env) (e_delta_id env) (e_now env))) =
          AList.update (e_session_id env) session' (sessions ?server1)"
      and r: "s_teams session' =
        s_teams (fst (assign_team ?created
          \<lparr>p_player_id = e_player_id env, p_callsign = strip (au_callsign data),
           p_team_id = None, p_connection_status = CONNECTED, p_last_active = e_now env,
           p_position = None, p_device_info = au_device_info data,
           p_websocket = Some websocket\<rparr> (e_player_id env)))"
        "s_players session' =
        AList.update (e_player_id env)
          (snd (assign_team ?created
            \<lparr>p_player_id = e_player_id env, p_callsign = strip (au_callsign data),
             p_team_id = None, p_connection_status = CONNECTED, p_last_active = e_now env,
             p_position = None, p_device_info = au_device_info data,
             p_websocket = Some websocket\<rparr> (e_player_id env)))
          (s_players ?created)"
        "s_sequence_number session' = s_sequence_number ?created + 1"
      using join_session_sessions[of ?server1 "e_session_id env" ?created websocket data
          "strip (au_callsign data)" "e_player_id env" "e_delta_id env" "e_now env"]
      by (elim exE conjE) (rule that; assumption)
    have "sessions (fst (handle_auth server websocket data env)) =
        AList.update (e_session_id env) session' (sessions server)"
      unfolding handle_auth_host[OF c True] by (simp add: j update_last)
    then show ?thesis using True r
      by (intro disjI2 exI[of _ "e_session_id env"] exI[of _ ?created] exI[of _ session']) simp
  next
    case h: False
    with False obtain session where
      s: "map_of (sessions server) (strip (au_session_id data)) = Some session"
      by auto
    obtain session' where
      j: "sessions (fst (join_session server (strip (au_session_id data)) session websocket data
            (strip (au_callsign data)) (e_player_id env) (e_delta_id env) (e_now env))) =
          AList.update (strip (au_session_id data)) session' (sessions server)"
      and r: "s_teams session' =
        s_teams (fst (assign_team session
          \<lparr>p_player_id = e_player_id env, p_callsign = strip (au_callsign data),
           p_team_id = None, p_connection_status = CONNECTED, p_last_active = e_now env,
           p_position = None, p_device_info = au_device_info data,
           p_websocket = Some websocket\<rparr> (e_player_id env)))"
        "s_players session' =
        AList.update (e_player_id env)
          (snd (assign_team session
            \<lparr>p_player_id = e_player_id env, p_callsign = strip (au_callsign data),
             p_team_id = None, p_connection_status = CONNECTED, p_last_active = e_now env,
             p_position = None, p_device_info = au_device_info data,
             p_websocket = Some websocket\<rparr> (e_player_id env)))
          (s_players session)"
        "s_sequence_number session' = s_sequence_number session + 1"
      using join_session_sessions[of server "strip (au_session_id data)" session websocket data
          "strip (au_callsign data)" "e_player_id env" "e_delta_id env" "e_now env"]
      by (elim exE conjE) (rule that; assumption)
    have "sessions (fst (handle_auth server websocket data env)) =
        AList.update (strip (au_session_id data)) session' (sessions server)"
      unfolding handle_auth_join[OF c h s] by (simp add: j)
    then show ?thesis using h r s
      by (intro disjI2 exI[of _ "strip (au_session_id data)"] exI[of _ session]
          exI[of _ session']) simp
  qed
qed

lemma map_of_Some_key: "map_of al k = Some v \<Longrightarrow> k \<in> fst ` set al"
  by (induction al) (auto split: if_splits)

lemma handle_auth_counter:
  assumes "map_of (sessions server) k = Some s"
    and "map_of (sessions (fst (handle_auth server websocket data env))) k = Some s'"
    and "au_is_host data \<longrightarrow> e_session_id env \<notin> fst ` set (sessions server)"
  shows "s_sequence_number s \<le> s_sequence_number s'"
proof -
  from handle_auth_state[of server websocket data env]
  consider "fst (handle_auth server websocket data env) = server"
    | sid session session' where
      "if au_is_host data
       then sid = e_session_id env \<and>
            session = create_session (e_session_id env) (e_alpha_id env) (e_bravo_id env)
                        (e_now env)
       else sid = strip (au_session_id data) \<and> map_of (sessions server) sid = Some session"
      "sessions (fst (handle_auth server websocket data env)) =
        AList.update sid session' (sessions server)"
      "s_sequence_number session' = s_sequence_number session + 1"
    by (elim disjE exE conjE) (rule that; assumption)+
  then show ?thesis
  proof cases
    case 1
    then show ?thesis using assms by simp
  next
    case 2
    show ?thesis
    proof (cases "k = sid")
      case True
      have kin: "k \<in> fst ` set (sessions server)"
        by (rule map_of_Some_key[OF assms(1)])
      have "\<not> au_is_host data"
      proof
        assume h: "au_is_host data"
        then have "sid = e_session_id env" using 2(1) by simp
        then show False using kin True assms(3) h by blast
      qed
      then show ?thesis using 2 assms True by (auto simp: update_conv')
    next
      case False
      then show ?thesis using 2 assms by (simp add: update_conv')
    qed
  qed
qed

text \<open>The maintenance sweep.\<close>

lemma sweep_players_counter:
  "s_sequence_number s \<le> s_sequence_number (fst (sweep_players t did ps s))"
proof (induction ps arbitrary: s)
  case Nil
  then show ?case by simp
next
  case (Cons a ps)
  obtain pid player where a: "a = (pid, player)" by (cases a)
  show ?case
  proof (cases "p_connection_status player = CONNECTED \<and> t - p_last_active player > INACTIVE_TIMEOUT")
    case True
    let ?s2 = "s\<lparr>s_players := AList.update pid (player\<lparr>p_connection_status := INACTIVE\<rparr>)
                  (s_players s), s_sequence_number := s_sequence_number s + 1\<rparr>"
    have "fst (sweep_players t did (a # ps) s) = fst (sweep_players t did ps ?s2)"
      using True by (simp add: a Let_def case_prod_beta broadcast_player_update_fst)
    then show ?thesis using Cons.IH[of ?s2] by simp
  next
    case False
    then have "fst (sweep_players t did (a # ps) s) = fst (sweep_players t did ps s)"
      by (auto simp: a)
    then show ?thesis using Cons.IH[of s] by simp
  qed
qed

lemma update_tick_sessions:
  "sessions (fst (update_tick server dids t)) =
     filter (\<lambda>(sid, session). s_players session \<noteq> [])
       (map (\<lambda>(sid, session). (sid, fst (sweep_session t (dids sid) session))) (sessions server))"
proof -
  have h: "map (\<lambda>(sid, r). (sid, fst r))
          (map (\<lambda>(sid, session). (sid, sweep_session t (dids sid) session)) xs) =
        map (\<lambda>(sid, session). (sid, fst (sweep_session t (dids sid) session))) xs" for xs
    by (induction xs) auto
  show ?thesis
    unfolding update_tick_def Let_def h by simp
qed

lemma update_tick_map_of:
  assumes "distinct (map fst (sessions server))"
    and "map_of (sessions (fst (update_tick server dids t))) k = Some s'"
  shows "\<exists>s. map_of (sessions server) k = Some s \<and> s' = fst (sweep_session t (dids k) s) \<and>
           s_players s' \<noteq> []"
proof -
  have "(k, s') \<in> set (sessions (fst (update_tick server dids t)))"
    using assms(2) by (rule map_of_SomeD)
  then have m: "(k, s') \<in> set (map (\<lambda>(sid, session). (sid, fst (sweep_session t (dids sid) session)))
                        (sessions server))"
    and n: "s_players s' \<noteq> []"
    unfolding update_tick_sessions by auto
  from m obtain s where "(k, s) \<in> set (sessions server)" "s' = fst (sweep_session t (dids k) s)"
    by auto
  then show ?thesis
    using assms(1) n by auto
qed

lemma update_tick_counter:
  assumes "distinct (map fst (sessions server))"
    and "map_of (sessions server) k = Some s"
    and "map_of (sessions (fst (update_tick server dids t))) k = Some s'"
  shows "s_sequence_number s \<le> s_sequence_number s'"
  using update_tick_map_of[OF assms(1,3)] assms(2) sweep_players_counter
  by (auto simp: sweep_session_def)

lemma reaches_allI:
  assumes "map_of (s_players s) pid = Some p" and "p_websocket p = Some w"
    and "p_connection_status p = CONNECTED"
  shows "reaches s None"
proof -
  have "p \<in> snd ` set (s_players s)"
    using map_of_SomeD[OF assms(1)] by force
  then have "(p_player_id p, w) \<in> tasks (set (map snd (s_players s)))"
    using assms(2,3) by (auto simp: tasks_eq)
  then show ?thesis
    by (auto simp: reaches_def target_players_def)
qed

lemma reaches_teamI:
  assumes "tid \<noteq> []" and "map_of (s_teams s) tid = Some team" and "pid \<in> t_players team"
    and "map_of (s_players s) pid = Some p" and "p_websocket p = Some w"
    and "p_connection_status p = CONNECTED"
  shows "reaches s (Some tid)"
proof -
  have "(p_player_id p, w) \<in>
      tasks {p. \<exists>pid \<in> t_players team. map_of (s_players s) pid = Some p}"
    using assms(3-6) by (auto simp: tasks_eq)
  then show ?thesis
    unfolding reaches_def target_players_team[OF assms(1,2)] by auto
qed

lemma reaches_unknown_team:
  assumes "tid \<noteq> []" and "map_of (s_teams s) tid = None"
  shows "\<not> reaches s (Some tid)"
  using assms by (simp add: reaches_def target_players_def)

lemma reaches_broadcast_delta:
  "reaches s t = (snd (broadcast_delta s d t did now) \<noteq> [])"
  by (simp add: broadcast_delta_reaches)

lemma sc_reaches:
  "reaches sc_session2 None" "reaches sc_session2 (Some ''A'')"
  "\<not> reaches sc_session2 (Some ''X'')"
proof -
  show "reaches sc_session2 None"
    by (rule reaches_allI[where pid = "''P1''" and p = sc_player1 and w = 1])
       (simp_all add: scenario_defs)
  show "reaches sc_session2 (Some ''A'')"
    by (rule reaches_teamI[where pid = "''P1''" and p = sc_player1 and w = 1 and team = sc_alpha])
       (simp_all add: scenario_defs)
  show "\<not> reaches sc_session2 (Some ''X'')"
    by (rule reaches_unknown_team) (simp_all add: scenario_defs)
qed

lemma assign_team_keeps:
  "p_websocket (snd (assign_team s p pid)) = p_websocket p \<and>
   p_connection_status (snd (assign_team s p pid)) = p_connection_status p \<and>
   s_sequence_number (fst (assign_team s p pid)) = s_sequence_number s \<and>
   s_players (fst (assign_team s p pid)) = s_players s"
  by (simp add: assign_team_def Let_def split: list.splits)

text \<open>The delta that announces a new player reaches the new player at least.\<close>

lemma join_session_numbers:
  "sequence_numbers (snd (join_session server sid session websocket data callsign pid did now)) =
     [s_sequence_number session + 1]"
proof -
  let ?p0 = "\<lparr>p_player_id = pid, p_callsign = callsign, p_team_id = None,
          p_connection_status = CONNECTED, p_last_active = now, p_position = None,
          p_device_info = au_device_info data, p_websocket = Some websocket\<rparr>"
  let ?s1 = "fst (assign_team session ?p0 pid)"
  let ?p1 = "snd (assign_team session ?p0 pid)"
  let ?s2 = "if au_is_host data then ?s1\<lparr>s_host_id := Some pid\<rparr> else ?s1"
  let ?s3 = "?s2\<lparr>s_players := AList.update pid ?p1 (s_players ?s2)\<rparr>"
  have k: "p_websocket ?p1 = Some websocket" "p_connection_status ?p1 = CONNECTED"
    "s_sequence_number ?s1 = s_sequence_number session"
    using assign_team_keeps[of session ?p0 pid] by simp_all
  have m: "map_of (s_players ?s3) pid = Some ?p1"
    by (simp add: update_conv')
  have r: "reaches ?s3 None"
    by (rule reaches_allI[OF m k(1) k(2)])
  have n: "s_sequence_number ?s3 = s_sequence_number session"
    using k(3) by simp
  have "snd (join_session server sid session websocket data callsign pid did now) =
      AuthResponse websocket pid (p_team_id ?p1) (get_filtered_state ?s3 (p_team_id ?p1)) #
      snd (broadcast_player_update ?s3 ?p1 ''add'' did now)"
    by (simp add: join_session_def Let_def case_prod_beta)
  then show ?thesis
    unfolding broadcast_player_update_def Let_def
    by (simp add: broadcast_delta_numbers r n)
qed

lemma handle_auth_numbers:
  assumes "strip (au_callsign data) \<noteq> []"
    and "if au_is_host data
         then session = create_session (e_session_id env) (e_alpha_id env) (e_bravo_id env)
                          (e_now env)
         else map_of (sessions server) (strip (au_session_id data)) = Some session"
  shows "sequence_numbers (fst (snd (handle_auth server websocket data env))) =
           [s_sequence_number session + 1]"
proof (cases "au_is_host data")
  case True
  then show ?thesis
    using assms(2) unfolding handle_auth_host[OF assms(1) True]
    by (simp add: join_session_numbers)
next
  case False
  then have s: "map_of (sessions server) (strip (au_session_id data)) = Some session"
    using assms(2) by simp
  show ?thesis
    unfolding handle_auth_join[OF assms(1) False s] by (simp add: join_session_numbers)
qed

lemma sc_server1_closed_eq:
  "handle_disconnect sc_server1 ''P1'' ''S'' ''d2'' 0 =
     Done \<lparr>sessions = [(''S'', sc_session1\<lparr>s_players :=
                [(''P1'', sc_player1\<lparr>p_connection_status := DISCONNECTED, p_websocket := None\<rparr>)],
                s_sequence_number := 2\<rparr>)],
           player_connections = []\<rparr> []"
  unfolding sc_server1_eq
  by (simp add: handle_disconnect_def scenario_defs broadcast_player_update_def
      broadcast_delta_def target_players_def tasks_def Let_def)

text \<open>
  C1, as amended. Every call of \<open>broadcast_delta\<close> raises the sequence number of the
  session by exactly 1. It sends one delta, which carries the new number, to the
  recipients of its scope when there is one, and sends nothing when there is none (no
  connected player in the scope, or a team that does not exist): the number is used up
  all the same. So after \<open>N\<close> broadcasts the counter has grown by \<open>N\<close>, and the deltas
  sent carry, in strictly increasing order, the numbers of those broadcasts that had a
  recipient: all of \<open>counter + 1 .. counter + N\<close> only when every broadcast had one. No
  handler lowers the counter of a session that stays in the registry: a message of a
  player, a disconnect, an authentication (whose fresh session id is new to the registry)
  or a maintenance tick.
\<close>

theorem broadcast_sequence_numbers:
  "s_sequence_number (fst (broadcast_delta session delta team_id did now)) =
     s_sequence_number session + 1 \<and>
   (team_id = None \<or> team_id = Some [] \<longrightarrow>
      (\<exists>rcpts. rcpts = {(p_player_id p, w) | p w.
                          p \<in> snd ` set (s_players session) \<and>
                          p_websocket p = Some w \<and> p_connection_status p = CONNECTED} \<and>
         snd (broadcast_delta session delta team_id did now) =
           (if rcpts = {} then []
            else [StateDeltaMsg
                    \<lparr>d_delta_id = did, d_session_id = s_session_id session, d_timestamp = now,
                     d_sequence_number = s_sequence_number session + 1, d_changes = delta\<rparr>
                    rcpts]))) \<and>
   (\<forall>tid team. team_id = Some tid \<and> tid \<noteq> [] \<and> map_of (s_teams session) tid = Some team \<longrightarrow>
      (\<exists>rcpts. rcpts = {(p_player_id p, w) | p w.
                          (\<exists>pid \<in> t_players team. map_of (s_players session) pid = Some p) \<and>
                          p_websocket p = Some w \<and> p_connection_status p = CONNECTED} \<and>
         snd (broadcast_delta session delta team_id did now) =
           (if rcpts = {} then []
            else [StateDeltaMsg
                    \<lparr>d_delta_id = did, d_session_id = s_session_id session, d_timestamp = now,
                     d_sequence_number = s_sequence_number session + 1, d_changes = delta\<rparr>
                    rcpts]))) \<and>
   (\<forall>tid. team_id = Some tid \<and> tid \<noteq> [] \<and> map_of (s_teams session) tid = None \<longrightarrow>
      snd (broadcast_delta session delta team_id did now) = []) \<and>
   reaches session team_id = (snd (broadcast_delta session delta team_id did now) \<noteq> []) \<and>
   s_sequence_number (fst (broadcast_all session reqs)) =
     s_sequence_number session + int (length reqs) \<and>
   sequence_numbers (snd (broadcast_all session reqs)) =
     map (\<lambda>k. s_sequence_number session + 1 + int k)
       (filter (\<lambda>k. reaches session (fst (snd (reqs ! k)))) [0..<length reqs]) \<and>
   sorted_wrt (<) (sequence_numbers (snd (broadcast_all session reqs))) \<and>
   ((\<forall>k < length reqs. reaches session (fst (snd (reqs ! k)))) \<longrightarrow>
      sequence_numbers (snd (broadcast_all session reqs)) =
        [s_sequence_number session + 1..s_sequence_number session + int (length reqs)]) \<and>
   (\<forall>k s s'. map_of (sessions server) k = Some s \<longrightarrow>
      (map_of (sessions (state_of (handle_message fl server pid sid data uid did now))) k =
         Some s' \<longrightarrow> s_sequence_number s \<le> s_sequence_number s') \<and>
      (map_of (sessions (state_of (handle_disconnect server pid sid did now))) k = Some s' \<longrightarrow>
         s_sequence_number s \<le> s_sequence_number s') \<and>
      ((au_is_host auth \<longrightarrow> e_session_id env \<notin> fst ` set (sessions server)) \<longrightarrow>
       map_of (sessions (fst (handle_auth server websocket auth env))) k = Some s' \<longrightarrow>
         s_sequence_number s \<le> s_sequence_number s') \<and>
      (distinct (map fst (sessions server)) \<longrightarrow>
       map_of (sessions (fst (update_tick server dids now))) k = Some s' \<longrightarrow>
         s_sequence_number s \<le> s_sequence_number s'))"
proof -
  have 1: "s_sequence_number (fst (broadcast_delta session delta team_id did now)) =
     s_sequence_number session + 1"
    by (simp add: broadcast_delta_fst)
  have 2: "team_id = None \<or> team_id = Some [] \<longrightarrow>
      (\<exists>rcpts. rcpts = {(p_player_id p, w) | p w.
                          p \<in> snd ` set (s_players session) \<and>
                          p_websocket p = Some w \<and> p_connection_status p = CONNECTED} \<and>
         snd (broadcast_delta session delta team_id did now) =
           (if rcpts = {} then []
            else [StateDeltaMsg
                    \<lparr>d_delta_id = did, d_session_id = s_session_id session, d_timestamp = now,
                     d_sequence_number = s_sequence_number session + 1, d_changes = delta\<rparr>
                    rcpts]))"
  proof
    assume a: "team_id = None \<or> team_id = Some []"
    show "\<exists>rcpts. rcpts = {(p_player_id p, w) | p w.
                          p \<in> snd ` set (s_players session) \<and>
                          p_websocket p = Some w \<and> p_connection_status p = CONNECTED} \<and>
         snd (broadcast_delta session delta team_id did now) =
           (if rcpts = {} then []
            else [StateDeltaMsg
                    \<lparr>d_delta_id = did, d_session_id = s_session_id session, d_timestamp = now,
                     d_sequence_number = s_sequence_number session + 1, d_changes = delta\<rparr>
                    rcpts])"
      by (rule exI, rule conjI, rule refl)
         (subst broadcast_delta_all[OF a refl], simp add: to_dict_def)
  qed
  have 3: "\<forall>tid team. team_id = Some tid \<and> tid \<noteq> [] \<and> map_of (s_teams session) tid = Some team \<longrightarrow>
      (\<exists>rcpts. rcpts = {(p_player_id p, w) | p w.
                          (\<exists>pid \<in> t_players team. map_of (s_players session) pid = Some p) \<and>
                          p_websocket p = Some w \<and> p_connection_status p = CONNECTED} \<and>
         snd (broadcast_delta session delta team_id did now) =
           (if rcpts = {} then []
            else [StateDeltaMsg
                    \<lparr>d_delta_id = did, d_session_id = s_session_id session, d_timestamp = now,
                     d_sequence_number = s_sequence_number session + 1, d_changes = delta\<rparr>
                    rcpts]))"
  proof (intro allI impI, elim conjE)
    fix tid team
    assume a: "team_id = Some tid" "tid \<noteq> []" "map_of (s_teams session) tid = Some team"
    show "\<exists>rcpts. rcpts = {(p_player_id p, w) | p w.
                          (\<exists>pid \<in> t_players team. map_of (s_players session) pid = Some p) \<and>
                          p_websocket p = Some w \<and> p_connection_status p = CONNECTED} \<and>
         snd (broadcast_delta session delta team_id did now) =
           (if rcpts = {} then []
            else [StateDeltaMsg
                    \<lparr>d_delta_id = did, d_session_id = s_session_id session, d_timestamp = now,
                     d_sequence_number = s_sequence_number session + 1, d_changes = delta\<rparr>
                    rcpts])"
      unfolding a(1)
      by (rule exI, rule conjI, rule refl)
         (subst broadcast_delta_team[OF a(2) a(3) refl], simp add: to_dict_def)
  qed
  have 4: "\<forall>tid. team_id = Some tid \<and> tid \<noteq> [] \<and> map_of (s_teams session) tid = None \<longrightarrow>
      snd (broadcast_delta session delta team_id did now) = []"
    by (simp add: broadcast_delta_unknown_team)
  have 5: "reaches session team_id = (snd (broadcast_delta session delta team_id did now) \<noteq> [])"
    by (rule reaches_broadcast_delta)
  have 6: "s_sequence_number (fst (broadcast_all session reqs)) =
     s_sequence_number session + int (length reqs)"
    using broadcast_all_numbers[of session reqs] by simp
  have 7: "sequence_numbers (snd (broadcast_all session reqs)) =
     map (\<lambda>k. s_sequence_number session + 1 + int k)
       (filter (\<lambda>k. reaches session (fst (snd (reqs ! k)))) [0..<length reqs])"
    using broadcast_all_numbers[of session reqs] by simp
  have 8: "sorted_wrt (<) (sequence_numbers (snd (broadcast_all session reqs)))"
    unfolding 7 by (rule sorted_wrt_map_filter_upt)
  have 9: "(\<forall>k < length reqs. reaches session (fst (snd (reqs ! k)))) \<longrightarrow>
      sequence_numbers (snd (broadcast_all session reqs)) =
        [s_sequence_number session + 1..s_sequence_number session + int (length reqs)]"
  proof
    assume "\<forall>k < length reqs. reaches session (fst (snd (reqs ! k)))"
    then have "filter (\<lambda>k. reaches session (fst (snd (reqs ! k)))) [0..<length reqs] =
        [0..<length reqs]"
      by (simp add: filter_id_conv)
    then show "sequence_numbers (snd (broadcast_all session reqs)) =
        [s_sequence_number session + 1..s_sequence_number session + int (length reqs)]"
      unfolding 7 by (simp add: map_upt_upto)
  qed
  have 10: "\<forall>k s s'. map_of (sessions server) k = Some s \<longrightarrow>
      (map_of (sessions (state_of (handle_message fl server pid sid data uid did now))) k =
         Some s' \<longrightarrow> s_sequence_number s \<le> s_sequence_number s') \<and>
      (map_of (sessions (state_of (handle_disconnect server pid sid did now))) k = Some s' \<longrightarrow>
         s_sequence_number s \<le> s_sequence_number s') \<and>
      ((au_is_host auth \<longrightarrow> e_session_id env \<notin> fst ` set (sessions server)) \<longrightarrow>
       map_of (sessions (fst (handle_auth server websocket auth env))) k = Some s' \<longrightarrow>
         s_sequence_number s \<le> s_sequence_number s') \<and>
      (distinct (map fst (sessions server)) \<longrightarrow>
       map_of (sessions (fst (update_tick server dids now))) k = Some s' \<longrightarrow>
         s_sequence_number s \<le> s_sequence_number s')"
    using handle_message_counter handle_disconnect_counter handle_auth_counter
      update_tick_counter
    by (intro allI impI conjI) blast+
  show ?thesis
    by (intro conjI 1 2 3 4 5 6 7 8 9 10)
qed

theorem broadcast_sequence_numbers_witness:
  "map_of (sessions sc_server2) ''S'' = Some sc_session2 \<and>
   s_sequence_number sc_session2 = 2 \<and>
   sequence_numbers (snd (broadcast_all sc_session2
      [([], None, ''d1'', 0), ([], Some ''A'', ''d2'', 1), ([], Some ''X'', ''d3'', 2),
       ([], None, ''d4'', 3)])) = [3, 4, 6] \<and>
   s_sequence_number (fst (broadcast_all sc_session2
      [([], None, ''d1'', 0), ([], Some ''A'', ''d2'', 1), ([], Some ''X'', ''d3'', 2),
       ([], None, ''d4'', 3)])) = 6 \<and>
   map_of (sessions (state_of (handle_disconnect sc_server2 ''P2'' ''S'' ''d'' 9))) ''S'' =
     Some (sc_session2\<lparr>s_players :=
             [(''P1'', sc_player1),
              (''P2'', sc_player2\<lparr>p_connection_status := DISCONNECTED, p_websocket := None\<rparr>)],
             s_sequence_number := 3\<rparr>) \<and>
   s_sequence_number sc_session2 \<le>
     s_sequence_number (sc_session2\<lparr>s_players :=
             [(''P1'', sc_player1),
              (''P2'', sc_player2\<lparr>p_connection_status := DISCONNECTED, p_websocket := None\<rparr>)],
             s_sequence_number := 3\<rparr>)"
proof -
  let ?reqs = "[([], None, ''d1'', 0), ([], Some ''A'', ''d2'', 1), ([], Some ''X'', ''d3'', 2),
       ([], None, ''d4'', 3)] :: (StateDelta \<times> string option \<times> string \<times> real) list"
  let ?closed = "sc_session2\<lparr>s_players :=
             [(''P1'', sc_player1),
              (''P2'', sc_player2\<lparr>p_connection_status := DISCONNECTED, p_websocket := None\<rparr>)],
             s_sequence_number := 3\<rparr>"
  note inst = broadcast_sequence_numbers[where session = sc_session2 and delta = "[]"
      and team_id = None and did = "''d''" and now = 9 and reqs = ?reqs
      and server = sc_server2 and fl = exact_arithmetic and pid = "''P2''" and sid = "''S''"
      and data = "OTHER []" and uid = "[]" and auth = sc_join_request and env = sc_join_env
      and websocket = 2 and dids = "\<lambda>a b. []"]
  have a: "map_of (sessions sc_server2) ''S'' = Some sc_session2"
    by (simp add: sc_server2_eq)
  have b: "s_sequence_number sc_session2 = 2"
    by (simp add: sc_session2_def sc_session1_def)
  from inst have n: "sequence_numbers (snd (broadcast_all sc_session2 ?reqs)) =
     map (\<lambda>k. s_sequence_number sc_session2 + 1 + int k)
       (filter (\<lambda>k. reaches sc_session2 (fst (snd (?reqs ! k)))) [0..<length ?reqs])"
    by (elim conjE)
  from inst have c: "s_sequence_number (fst (broadcast_all sc_session2 ?reqs)) =
     s_sequence_number sc_session2 + int (length ?reqs)"
    by (elim conjE)
  from inst have h: "\<forall>k s s'. map_of (sessions sc_server2) k = Some s \<longrightarrow>
      (map_of (sessions (state_of (handle_message exact_arithmetic sc_server2 ''P2'' ''S''
           (OTHER []) [] ''d'' 9))) k = Some s' \<longrightarrow> s_sequence_number s \<le> s_sequence_number s') \<and>
      (map_of (sessions (state_of (handle_disconnect sc_server2 ''P2'' ''S'' ''d'' 9))) k = Some s' \<longrightarrow>
         s_sequence_number s \<le> s_sequence_number s') \<and>
      ((au_is_host sc_join_request \<longrightarrow> e_session_id sc_join_env \<notin> fst ` set (sessions sc_server2)) \<longrightarrow>
       map_of (sessions (fst (handle_auth sc_server2 2 sc_join_request sc_join_env))) k = Some s' \<longrightarrow>
         s_sequence_number s \<le> s_sequence_number s') \<and>
      (distinct (map fst (sessions sc_server2)) \<longrightarrow>
       map_of (sessions (fst (update_tick sc_server2 (\<lambda>a b. []) 9))) k = Some s' \<longrightarrow>
         s_sequence_number s \<le> s_sequence_number s')"
    by (elim conjE)
  have n': "sequence_numbers (snd (broadcast_all sc_session2 ?reqs)) = [3, 4, 6]"
    unfolding n b by (simp add: sc_reaches)
  have c': "s_sequence_number (fst (broadcast_all sc_session2 ?reqs)) = 6"
    unfolding c b by simp
  have d: "map_of (sessions (state_of (handle_disconnect sc_server2 ''P2'' ''S'' ''d'' 9))) ''S'' =
      Some ?closed"
    unfolding sc_server2_eq
    by (simp add: handle_disconnect_def Let_def case_prod_beta broadcast_player_update_fst
        sc_session2_def)
  have e: "s_sequence_number sc_session2 \<le> s_sequence_number ?closed"
    using h a d by blast
  show ?thesis
    by (intro conjI a b n' c' d e)
qed

text \<open>
  C1 as stated fails. The host opens a session and receives delta 1; the host's
  connection closes while nobody else is connected, so the broadcast of the status uses
  up number 2 and sends nothing; the second player joins and its announcement carries
  number 3. After three broadcasts the deltas sent carry 1 and 3.
\<close>

theorem silent_broadcast_leaves_gap:
  "sc_server1 = fst (handle_auth sc_server0 1 sc_host_request sc_host_env) \<and>
   sequence_numbers (fst (snd (handle_auth sc_server0 1 sc_host_request sc_host_env))) = [1] \<and>
   handle_disconnect sc_server1 ''P1'' ''S'' ''d2'' 0 = Done sc_server1_closed [] \<and>
   map_option s_sequence_number (map_of (sessions sc_server1_closed) ''S'') = Some 2 \<and>
   sequence_numbers (fst (snd (handle_auth sc_server1_closed 2 sc_join_request sc_join_env))) =
     [3]"
proof -
  let ?closed = "sc_session1\<lparr>s_players :=
                [(''P1'', sc_player1\<lparr>p_connection_status := DISCONNECTED, p_websocket := None\<rparr>)],
                s_sequence_number := 2\<rparr>"
  have a: "sc_server1 = fst (handle_auth sc_server0 1 sc_host_request sc_host_env)"
    by (rule sc_server1_def)
  have ch: "strip (au_callsign sc_host_request) \<noteq> []"
    and cj: "strip (au_callsign sc_join_request) \<noteq> []"
    and sj: "strip (au_session_id sc_join_request) = ''S''"
    by (simp_all add: sc_host_request_def sc_join_request_def strip_def isspace_def)
  have "sequence_numbers (fst (snd (handle_auth sc_server0 1 sc_host_request sc_host_env))) =
      [s_sequence_number (create_session (e_session_id sc_host_env) (e_alpha_id sc_host_env)
         (e_bravo_id sc_host_env) (e_now sc_host_env)) + 1]"
    by (rule handle_auth_numbers[OF ch]) (simp add: sc_host_request_def)
  then have b: "sequence_numbers (fst (snd (handle_auth sc_server0 1 sc_host_request
      sc_host_env))) = [1]"
    by (simp add: create_session_def new_Session_def Let_def)
  have s: "sc_server1_closed = \<lparr>sessions = [(''S'', ?closed)], player_connections = []\<rparr>"
    unfolding sc_server1_closed_def sc_server1_closed_eq by simp
  have c: "handle_disconnect sc_server1 ''P1'' ''S'' ''d2'' 0 = Done sc_server1_closed []"
    unfolding s by (rule sc_server1_closed_eq)
  have d: "map_option s_sequence_number (map_of (sessions sc_server1_closed) ''S'') = Some 2"
    unfolding s by simp
  have "sequence_numbers (fst (snd (handle_auth sc_server1_closed 2 sc_join_request
      sc_join_env))) = [s_sequence_number ?closed + 1]"
    by (rule handle_auth_numbers[OF cj]) (simp add: sj s, simp add: sc_join_request_def)
  then have e: "sequence_numbers (fst (snd (handle_auth sc_server1_closed 2 sc_join_request
      sc_join_env))) = [3]"
    by simp
  show ?thesis
    by (intro conjI a b c d e)
qed

section \<open>Marker updates of a player that changed team\<close>

text \<open>
  C2. An update of a marker by its creator is broadcast, for a marker of team
  visibility, to the members of the team the creator is in now, whatever team owns the
  marker.
\<close>

theorem marker_update_goes_to_current_team:
  assumes "mr_action data = Some ''update''"
    and "mr_marker_id data = Some marker_id"
    and "mr_marker_data data = Some md"
    and "map_of (s_markers session) marker_id = Some marker"
    and "m_created_by marker = p_player_id player"
    and "m_visibility marker = V_TEAM"
    and "p_team_id player = Some tid"
    and "tid \<noteq> []"
    and "map_of (s_teams session) tid = Some team"
  shows "\<exists>session' d rcpts.
           rcpts = {(p_player_id q, w) | q w.
                      (\<exists>pid \<in> t_players team. map_of (s_players session) pid = Some q) \<and>
                      p_websocket q = Some w \<and> p_connection_status q = CONNECTED} \<and>
           handle_marker session player data mid did now =
             Done session' (if rcpts = {} then [] else [StateDeltaMsg d rcpts]) \<and>
           c_entity_id (hd (d_changes d)) = marker_id \<and>
           c_entity_type (hd (d_changes d)) = ''marker''"
proof -
  let ?R = "{(p_player_id q, w) | q w.
              (\<exists>pid \<in> t_players team. map_of (s_players session) pid = Some q) \<and>
              p_websocket q = Some w \<and> p_connection_status q = CONNECTED}"
  let ?marker' = "case md_properties md of
                    None \<Rightarrow> marker
                  | Some ps \<Rightarrow> marker\<lparr>m_properties := dict_update (m_properties marker) ps\<rparr>"
  let ?session' = "session\<lparr>s_markers := AList.update marker_id ?marker' (s_markers session)\<rparr>"
  let ?delta = "[\<lparr>c_type = ''update'', c_entity_type = ''marker'', c_entity_id = marker_id,
                  c_data = PropertiesData (m_properties ?marker'), c_timestamp = now\<rparr>]"
  let ?d = "to_dict ?delta (s_session_id ?session') (s_sequence_number ?session' + 1) did now"
  have v: "m_visibility ?marker' = V_TEAM"
    using assms(6) by (simp split: option.splits)
  have t: "map_of (s_teams ?session') tid = Some team"
    using assms(9) by simp
  have h: "handle_marker session player data mid did now =
      broadcast (broadcast_delta ?session' ?delta (Some tid) did now)"
    using assms(1-5,7) v
    by (simp add: handle_marker_def marker_update_def scoped_broadcast_def Let_def add_change_def)
  have b: "broadcast_delta ?session' ?delta (Some tid) did now =
      (?session'\<lparr>s_sequence_number := s_sequence_number ?session' + 1\<rparr>,
       if ?R = {} then [] else [StateDeltaMsg ?d ?R])"
    by (rule broadcast_delta_team[OF assms(8) t]) simp
  have r: "handle_marker session player data mid did now =
      Done (?session'\<lparr>s_sequence_number := s_sequence_number ?session' + 1\<rparr>)
        (if ?R = {} then [] else [StateDeltaMsg ?d ?R])"
    unfolding h b by (simp add: broadcast_def)
  have c: "c_entity_id (hd (d_changes ?d)) = marker_id"
    "c_entity_type (hd (d_changes ?d)) = ''marker''"
    by (simp_all add: to_dict_def)
  show ?thesis
    by (rule exI[of _ "?session'\<lparr>s_sequence_number := s_sequence_number ?session' + 1\<rparr>"],
        rule exI[of _ ?d], rule exI[of _ ?R], intro conjI refl r c)
qed

theorem marker_update_goes_to_current_team_witness:
  "map_of (sessions sc_server4) ''S'' = Some sc_session4 \<and>
   map_of (s_players sc_session4) ''P1'' = Some (sc_player1\<lparr>p_team_id := Some ''B''\<rparr>) \<and>
   map_of (s_players sc_session4) ''P2'' = Some sc_player2 \<and>
   map_of (s_markers sc_session4) ''M'' = Some sc_marker \<and>
   m_visibility sc_marker = V_TEAM \<and> m_team_id sc_marker = Some ''A'' \<and>
   ''P2'' \<notin> t_players (the (map_of (s_teams sc_session4) ''A'')) \<and>
   (\<exists>session' d rcpts.
      handle_marker sc_session4 (sc_player1\<lparr>p_team_id := Some ''B''\<rparr>) sc_update_marker
        ''u5'' ''d5'' 0 = Done session' [StateDeltaMsg d rcpts] \<and>
      c_entity_id (hd (d_changes d)) = ''M'' \<and> (''P2'', 2) \<in> rcpts)"
proof -
  let ?R = "{(p_player_id q, w) | q w.
             (\<exists>pid \<in> t_players (sc_bravo\<lparr>t_players := {''P1'', ''P2''}\<rparr>).
                map_of (s_players sc_session4) pid = Some q) \<and>
             p_websocket q = Some w \<and> p_connection_status q = CONNECTED}"
  have "\<exists>session' d rcpts.
      rcpts = ?R \<and>
      handle_marker sc_session4 (sc_player1\<lparr>p_team_id := Some ''B''\<rparr>) sc_update_marker
        ''u5'' ''d5'' 0 = Done session' (if rcpts = {} then [] else [StateDeltaMsg d rcpts]) \<and>
      c_entity_id (hd (d_changes d)) = ''M'' \<and>
      c_entity_type (hd (d_changes d)) = ''marker''"
    by (rule marker_update_goes_to_current_team[where md = "\<lparr>md_type = None,
          md_visibility = None, md_position = None, md_properties = Some [(''label'', ''x'')]\<rparr>"
          and marker = sc_marker and tid = "''B''"])
       (simp_all add: scenario_defs)
  then obtain session' d rcpts where
    h: "rcpts = ?R"
       "handle_marker sc_session4 (sc_player1\<lparr>p_team_id := Some ''B''\<rparr>) sc_update_marker
          ''u5'' ''d5'' 0 = Done session' (if rcpts = {} then [] else [StateDeltaMsg d rcpts])"
       "c_entity_id (hd (d_changes d)) = ''M''"
    by (elim exE conjE) (rule that; assumption)
  have "(''P2'', 2) \<in> ?R"
    by (simp add: scenario_defs) (rule exI[of _ sc_player2], simp add: scenario_defs)
  then have m: "(''P2'', 2) \<in> rcpts"
    unfolding h(1) .
  then have ne: "rcpts \<noteq> {}"
    by auto
  have h2: "handle_marker sc_session4 (sc_player1\<lparr>p_team_id := Some ''B''\<rparr>) sc_update_marker
          ''u5'' ''d5'' 0 = Done session' [StateDeltaMsg d rcpts]"
    using h(2) ne by simp
  have ex: "\<exists>session' d rcpts.
      handle_marker sc_session4 (sc_player1\<lparr>p_team_id := Some ''B''\<rparr>) sc_update_marker
        ''u5'' ''d5'' 0 = Done session' [StateDeltaMsg d rcpts] \<and>
      c_entity_id (hd (d_changes d)) = ''M'' \<and> (''P2'', 2) \<in> rcpts"
    by (rule exI[of _ session'], rule exI[of _ d], rule exI[of _ rcpts], intro conjI h2 h(3) m)
  have st: "map_of (sessions sc_server4) ''S'' = Some sc_session4 \<and>
   map_of (s_players sc_session4) ''P1'' = Some (sc_player1\<lparr>p_team_id := Some ''B''\<rparr>) \<and>
   map_of (s_players sc_session4) ''P2'' = Some sc_player2 \<and>
   map_of (s_markers sc_session4) ''M'' = Some sc_marker \<and>
   m_visibility sc_marker = V_TEAM \<and> m_team_id sc_marker = Some ''A'' \<and>
   ''P2'' \<notin> t_players (the (map_of (s_teams sc_session4) ''A''))"
    by (simp add: sc_server4_eq) (simp add: scenario_defs)
  show ?thesis
    using st ex by (intro conjI) blast+
qed

section \<open>Position updates\<close>







section \<open>The snapshot of an auth response\<close>

lemma last_n_append: "length ys = n \<Longrightarrow> last_n n (xs @ ys) = ys"
  by (simp add: last_n_def)

text \<open>
  C4, as amended. The snapshot for a viewer team holds every team with its public
  fields, every player with the public fields and the position exactly when the player
  is of the viewer's team and has one, exactly the markers that are visible to all or
  owned by the viewer's team, and of the last 50 events of the session those that are
  visible to all or of the viewer's team, in their order.
\<close>

theorem snapshot_contents:
  "sv_teams (get_filtered_state session team_id) =
     map (\<lambda>(tid, team). (tid, \<lparr>tv_team_id = t_team_id team, tv_name = t_name team,
                                tv_color = t_color team, tv_players = t_players team\<rparr>))
       (s_teams session) \<and>
   list_all2
     (\<lambda>(pid, player) (pid', view).
        pid' = pid \<and> pv_player_id view = p_player_id player \<and>
        pv_callsign view = p_callsign player \<and> pv_team_id view = p_team_id player \<and>
        pv_connection_status view = p_connection_status player \<and>
        pv_position view =
          (if p_team_id player = team_id \<and> p_position player \<noteq> None
           then p_position player else None))
     (s_players session) (sv_players (get_filtered_state session team_id)) \<and>
   sv_markers (get_filtered_state session team_id) =
     filter (\<lambda>(mid, marker). m_visibility marker = V_ALL \<or> m_team_id marker = team_id)
       (s_markers session) \<and>
   sv_messages (get_filtered_state session team_id) =
     filter (\<lambda>message. msg_visibility message = V_ALL \<or> msg_team_id message = team_id)
       (drop (length (s_messages session) - 50) (s_messages session)) \<and>
   sv_sequence_number (get_filtered_state session team_id) = s_sequence_number session"
proof -
  have players: "list_all2
     (\<lambda>(pid, player) (pid', view).
        pid' = pid \<and> pv_player_id view = p_player_id player \<and>
        pv_callsign view = p_callsign player \<and> pv_team_id view = p_team_id player \<and>
        pv_connection_status view = p_connection_status player \<and>
        pv_position view =
          (if p_team_id player = team_id \<and> p_position player \<noteq> None
           then p_position player else None))
     ps (map (\<lambda>(pid, player). (pid, player_public team_id player)) ps)" for ps
    by (induction ps) (auto simp: player_public_def)
  have teams: "map (\<lambda>(tid, team). (tid, team_public team)) ts =
     map (\<lambda>(tid, team). (tid, \<lparr>tv_team_id = t_team_id team, tv_name = t_name team,
                                tv_color = t_color team, tv_players = t_players team\<rparr>)) ts" for ts
    by (induction ts) (auto simp: team_public_def)
  have markers: "filter (\<lambda>(mid, marker). marker_visible team_id marker) ms =
     filter (\<lambda>(mid, marker). m_visibility marker = V_ALL \<or> m_team_id marker = team_id) ms" for ms
    by (induction ms) (auto simp: marker_visible_def)
  have messages: "filter (message_visible team_id) xs =
     filter (\<lambda>message. msg_visibility message = V_ALL \<or> msg_team_id message = team_id) xs" for xs
    by (induction xs) (auto simp: message_visible_def)
  have sp: "sv_players (get_filtered_state session team_id) =
      map (\<lambda>(pid, player). (pid, player_public team_id player)) (s_players session)"
    by (simp add: get_filtered_state_def)
  have 1: "sv_teams (get_filtered_state session team_id) =
     map (\<lambda>(tid, team). (tid, \<lparr>tv_team_id = t_team_id team, tv_name = t_name team,
                                tv_color = t_color team, tv_players = t_players team\<rparr>))
       (s_teams session)"
    by (simp add: get_filtered_state_def teams)
  have 2: "list_all2
     (\<lambda>(pid, player) (pid', view).
        pid' = pid \<and> pv_player_id view = p_player_id player \<and>
        pv_callsign view = p_callsign player \<and> pv_team_id view = p_team_id player \<and>
        pv_connection_status view = p_connection_status player \<and>
        pv_position view =
          (if p_team_id player = team_id \<and> p_position player \<noteq> None
           then p_position player else None))
     (s_players session) (sv_players (get_filtered_state session team_id))"
    unfolding sp by (rule players)
  have 3: "sv_markers (get_filtered_state session team_id) =
     filter (\<lambda>(mid, marker). m_visibility marker = V_ALL \<or> m_team_id marker = team_id)
       (s_markers session)"
    by (simp add: get_filtered_state_def markers)
  have 4: "sv_messages (get_filtered_state session team_id) =
     filter (\<lambda>message. msg_visibility message = V_ALL \<or> msg_team_id message = team_id)
       (drop (length (s_messages session) - 50) (s_messages session))"
    by (simp add: get_filtered_state_def last_n_def messages)
  have 5: "sv_sequence_number (get_filtered_state session team_id) = s_sequence_number session"
    by (simp add: get_filtered_state_def)
  show ?thesis
    by (intro conjI 1 2 3 4 5)
qed

theorem snapshot_contents_witness:
  "sv_markers (get_filtered_state sc_session4 (Some ''B'')) = [] \<and>
   sv_markers (get_filtered_state sc_session4 (Some ''A'')) = [(''M'', sc_marker)] \<and>
   sv_messages (get_filtered_state sc_chat_session (Some ''B'')) =
     replicate 50 sc_msg_bravo"
proof -
  have a: "sv_markers (get_filtered_state sc_session4 (Some ''B'')) = []"
    using snapshot_contents[of sc_session4 "Some ''B''"]
    by (simp add: sc_session4_def sc_marker_def)
  have b: "sv_markers (get_filtered_state sc_session4 (Some ''A'')) = [(''M'', sc_marker)]"
    using snapshot_contents[of sc_session4 "Some ''A''"]
    by (simp add: sc_session4_def sc_marker_def)
  have "sv_messages (get_filtered_state sc_chat_session (Some ''B'')) =
     filter (\<lambda>message. msg_visibility message = V_ALL \<or> msg_team_id message = Some ''B'')
       (replicate 50 sc_msg_bravo)"
    using snapshot_contents[of sc_chat_session "Some ''B''"]
    by (simp add: sc_chat_session_def)
  then have c: "sv_messages (get_filtered_state sc_chat_session (Some ''B'')) =
     replicate 50 sc_msg_bravo"
    by (simp add: sc_msg_bravo_def)
  show ?thesis
    by (intro conjI a b c)
qed

text \<open>
  C4 as stated fails: in \<open>sc_chat_session\<close> the only event an Alpha viewer may see is
  older than the last 50 events, so the snapshot holds no event, while the most recent
  50 events visible to Alpha are that one event.
\<close>

theorem snapshot_misses_older_visible_message:
  "sv_messages (get_filtered_state sc_chat_session (Some ''A'')) = [] \<and>
   recent_visible (Some ''A'') (s_messages sc_chat_session) = [sc_msg_all]"
proof -
  have m: "s_messages sc_chat_session = [sc_msg_all] @ replicate 50 sc_msg_bravo"
    by (simp add: sc_chat_session_def)
  have l: "last_n 50 (s_messages sc_chat_session) = replicate 50 sc_msg_bravo"
    unfolding m by (rule last_n_append) simp
  have va: "message_visible (Some ''A'') sc_msg_all"
    and vb: "\<not> message_visible (Some ''A'') sc_msg_bravo"
    by (simp_all add: message_visible_def sc_msg_all_def sc_msg_bravo_def)
  have a: "sv_messages (get_filtered_state sc_chat_session (Some ''A'')) = []"
    by (simp add: get_filtered_state_def l vb)
  have "filter (message_visible (Some ''A'')) (s_messages sc_chat_session) = [sc_msg_all]"
    unfolding m using va vb by simp
  then have b: "recent_visible (Some ''A'') (s_messages sc_chat_session) = [sc_msg_all]"
    by (simp add: recent_visible_def last_n_def)
  show ?thesis
    by (intro conjI a b)
qed

section \<open>Chat and alerts\<close>

lemma handle_chat_bounded:
  assumes "handle_chat session player data mid did now = Done session' es"
    and "length (s_messages session) \<le> 100"
  shows "length (s_messages session') \<le> 100"
  using assms
  by (auto simp: handle_chat_def Let_def broadcast_def broadcast_delta_def last_n_def
      split: option.splits sum.splits if_splits prod.splits)

lemma handle_alert_absent_location:
  assumes "al_alert_type data = Some v" "AlertType_of v = Some alert_type"
    and "al_location data = None \<or> al_location data = Some []"
  shows "handle_alert session player data mid did now =
     broadcast (broadcast_delta
       (session\<lparr>s_messages := s_messages session @
           [\<lparr>msg_message_id = mid, msg_sender_id = p_player_id player,
             msg_team_id = p_team_id player, msg_visibility = V_TEAM, msg_type = ''alert'',
             msg_content = upper (AlertType_value alert_type) @ '' - '' @ p_callsign player,
             msg_sent_at = now, msg_location = p_position player\<rparr>]\<rparr>)
       [\<lparr>c_type = ''add'', c_entity_type = ''message'', c_entity_id = mid,
         c_data = MessageData \<lparr>msg_message_id = mid, msg_sender_id = p_player_id player,
             msg_team_id = p_team_id player, msg_visibility = V_TEAM, msg_type = ''alert'',
             msg_content = upper (AlertType_value alert_type) @ '' - '' @ p_callsign player,
             msg_sent_at = now, msg_location = p_position player\<rparr>, c_timestamp = now\<rparr>]
       (p_team_id player) did now)"
  using assms
  by (auto simp: handle_alert_def Let_def add_change_def)

lemma broadcast_Done:
  "\<exists>session' sent. broadcast (broadcast_delta s delta t did now) = Done session' sent \<and>
      s_messages session' = s_messages s"
  by (simp add: broadcast_def broadcast_delta_def Let_def split: option.splits)

text \<open>
  C5. An alert appends its event to the message list and does not trim the list: the
  list is one longer afterwards, whatever its length was.
\<close>

theorem alert_grows_message_list:
  assumes "al_alert_type data = Some v" and "AlertType_of v = Some alert_type"
    and "al_location data = None"
  shows "\<exists>session' es. handle_alert session player data mid did now = Done session' es \<and>
           length (s_messages session') = length (s_messages session) + 1"
proof -
  let ?s = "session\<lparr>s_messages := s_messages session @
           [\<lparr>msg_message_id = mid, msg_sender_id = p_player_id player,
             msg_team_id = p_team_id player, msg_visibility = V_TEAM, msg_type = ''alert'',
             msg_content = upper (AlertType_value alert_type) @ '' - '' @ p_callsign player,
             msg_sent_at = now, msg_location = p_position player\<rparr>]\<rparr>"
  let ?delta = "[\<lparr>c_type = ''add'', c_entity_type = ''message'', c_entity_id = mid,
         c_data = MessageData \<lparr>msg_message_id = mid, msg_sender_id = p_player_id player,
             msg_team_id = p_team_id player, msg_visibility = V_TEAM, msg_type = ''alert'',
             msg_content = upper (AlertType_value alert_type) @ '' - '' @ p_callsign player,
             msg_sent_at = now, msg_location = p_position player\<rparr>, c_timestamp = now\<rparr>]"
  have h: "handle_alert session player data mid did now =
      broadcast (broadcast_delta ?s ?delta (p_team_id player) did now)"
    using handle_alert_absent_location[OF assms(1,2)] assms(3) by simp
  obtain session' sent where
    b: "broadcast (broadcast_delta ?s ?delta (p_team_id player) did now) = Done session' sent"
       "s_messages session' = s_messages ?s"
    using broadcast_Done[of ?s ?delta "p_team_id player" did now]
    by (elim exE conjE) (rule that; assumption)
  have r: "handle_alert session player data mid did now = Done session' sent"
    using h b(1) by (rule trans)
  have n: "length (s_messages session') = length (s_messages session) + 1"
    unfolding b(2) by simp
  show ?thesis
    by (rule exI[of _ session'], rule exI[of _ sent], rule conjI[OF r n])
qed

theorem alert_grows_message_list_witness:
  "length (s_messages sc_full_session) = 100 \<and>
   (\<exists>session' es.
      handle_alert sc_full_session sc_player1 sc_contact_alert ''m'' ''d'' 0 = Done session' es \<and>
      length (s_messages session') = 101)"
proof -
  have n: "length (s_messages sc_full_session) = 100"
    by (simp add: sc_full_session_def)
  have "\<exists>session' es.
      handle_alert sc_full_session sc_player1 sc_contact_alert ''m'' ''d'' 0 = Done session' es \<and>
      length (s_messages session') = length (s_messages sc_full_session) + 1"
    by (rule alert_grows_message_list[where v = "''contact''" and alert_type = CONTACT])
       (simp_all add: sc_contact_alert_def AlertType_of_def)
  then have "\<exists>session' es.
      handle_alert sc_full_session sc_player1 sc_contact_alert ''m'' ''d'' 0 = Done session' es \<and>
      length (s_messages session') = 101"
    unfolding n by simp
  then show ?thesis
    using n by simp
qed





section \<open>Marker requests of a player that is not the creator\<close>

text \<open>
  C6. An update or a delete request that names a marker id which is unknown, or the id
  of a marker another player created, returns without an error, sends nothing and leaves
  the session as it is: its markers with their properties, the marker sets of its teams
  and its sequence number.
\<close>

theorem foreign_marker_request_ignored:
  assumes "mr_action data = Some ''update'' \<or> mr_action data = Some ''delete''"
    and "mr_marker_id data = Some marker_id"
    and "\<forall>marker. map_of (s_markers session) marker_id = Some marker \<longrightarrow>
           m_created_by marker \<noteq> p_player_id player"
  shows "handle_marker session player data mid did now = Done session []"
  using assms
  by (auto simp: handle_marker_def marker_update_def marker_delete_def split: option.splits)

theorem foreign_marker_request_ignored_witness:
  "mr_action sc_update_marker = Some ''update'' \<and>
   map_of (s_markers sc_session4) ''M'' = Some sc_marker \<and>
   m_created_by sc_marker \<noteq> p_player_id sc_player2 \<and>
   handle_marker sc_session4 sc_player2 sc_update_marker ''u'' ''d'' 0 = Done sc_session4 []"
proof -
  have a: "mr_action sc_update_marker = Some ''update'' \<or> mr_action sc_update_marker = Some ''delete''"
    and a': "mr_action sc_update_marker = Some ''update''"
    and i: "mr_marker_id sc_update_marker = Some ''M''"
    by (simp_all add: sc_update_marker_def)
  have m: "map_of (s_markers sc_session4) ''M'' = Some sc_marker"
    by (simp add: sc_session4_def)
  have c: "m_created_by sc_marker \<noteq> p_player_id sc_player2"
    by (simp add: sc_marker_def sc_player2_def)
  have f: "\<forall>marker. map_of (s_markers sc_session4) ''M'' = Some marker \<longrightarrow>
           m_created_by marker \<noteq> p_player_id sc_player2"
    using m c by simp
  show ?thesis
    using foreign_marker_request_ignored[OF a i f, of "''u''" "''d''" 0] a' m c by simp
qed

end
